theory Spec2Isabelle
  imports Main "HOL-Library.Multiset"
begin

section \<open>Values and tables\<close>

text \<open>
  The backend of the application: the watchlist router (routes/watchlist.ts), the
  store-backed auth router (routes/auth-db.ts) and the store-backed Google router
  (routes/google-auth-db.ts), the three routers that index.ts mounts.

  Strings are \<open>string\<close>. A field of a request body that the handler only tests for
  truthiness or hands to a validator that reads \<open>undefined\<close> and \<open>null\<close> alike is a
  \<open>string option\<close>, \<open>None\<close> for both; a field whose type the code looks at is a
  \<open>json option\<close>, \<open>None\<close> for \<open>undefined\<close> and \<open>Some JNull\<close> for \<open>null\<close>. A nullable
  column is an \<open>option\<close>. Times are seconds as \<open>nat\<close>. The relational store is a pair of row
  lists in insertion order; string comparison in a \<open>WHERE\<close> clause is equality.
  The store answers every statement: the \<open>catch\<close> block of a handler is reached only
  where the handler itself throws.
\<close>

datatype json = JNull | JBool bool | JNum int | JStr string

text \<open>JavaScript truthiness of an optional string: \<open>undefined\<close>, \<open>null\<close> and the empty
  string are falsy.\<close>

fun truthy :: "string option \<Rightarrow> bool" where
  "truthy None = False"
| "truthy (Some s) = (s \<noteq> [])"

text \<open>\<open>x || null\<close> on an optional string.\<close>

definition or_null :: "string option \<Rightarrow> string option" where
  "or_null x = (if truthy x then x else None)"

text \<open>The interface \<open>User\<close> of auth-db.ts and google-auth-db.ts (\<open>uid\<close> is the column
  \<open>id\<close>, \<open>uname\<close> the column \<open>name\<close>).\<close>

record User =
  uid :: nat
  email :: string
  password :: "string option"
  google_id :: "string option"
  uname :: "string option"
  picture :: "string option"
  created_at :: nat

text \<open>The interface \<open>WatchlistItem\<close> of watchlist.ts (\<open>wid\<close> is the column \<open>id\<close>,
  \<open>wname\<close> the column \<open>name\<close>).\<close>

record WatchlistItem =
  wid :: nat
  user_id :: nat
  symbol :: string
  wname :: string
  is_favorite :: bool
  added_at :: nat

record db =
  users :: "User list"
  watchlist :: "WatchlistItem list"

text \<open>Modelled from the spec: the table declarations are not among the sources; the spec
  says the numeric id of a row is assigned by the store. The store assigns an id above
  every id in the table (\<open>result.insertId\<close>).\<close>

definition insertId :: "nat list \<Rightarrow> nat" where
  "insertId ids = Suc (fold max ids 0)"

section \<open>Tokens\<close>

text \<open>
  The payload of a token: \<open>userId\<close> and \<open>email\<close>, which every \<open>jwt.sign\<close> call of the
  three routers passes, and the further claims in \<open>extra\<close>.
  A token is kept structured: the payload, the two times jsonwebtoken adds (\<open>iat\<close>, and
  \<open>exp\<close> from \<open>expiresIn\<close>) and the secret it was signed with (\<open>key\<close>).
\<close>

record claims =
  userId :: nat
  claim_email :: string
  extra :: "(string \<times> json) list"

record jwt =
  payload :: claims
  iat :: nat
  exp :: nat
  key :: string

text \<open>The ID-token payload of google-auth-library, as far as the router reads it.\<close>

record TokenPayload =
  sub :: string
  g_email :: "string option"
  g_name :: "string option"
  g_picture :: "string option"

text \<open>
  What the routers take from outside the repository: the environment variable
  \<open>JWT_SECRET\<close>, the compact serialisation of jsonwebtoken (\<open>jwt_encode\<close>, and
  \<open>jwt_decode\<close>, which is \<open>None\<close> on a string that is no token), the validators
  \<open>isEmail\<close> and the sanitizers \<open>normalizeEmail\<close> and \<open>trim\<close> of express-validator, \<open>bcrypt.hash\<close> (password, then
  salt) and \<open>bcrypt.compare\<close> (password, then hash), and \<open>client.verifyIdToken\<close> followed
  by \<open>getPayload\<close> (\<open>None\<close> when verification throws, \<open>Some None\<close> when the ticket has
  no payload).
\<close>

record lib =
  JWT_SECRET :: "string option"
  jwt_encode :: "jwt \<Rightarrow> string"
  jwt_decode :: "string \<Rightarrow> jwt option"
  isEmail :: "string \<Rightarrow> bool"
  normalizeEmail :: "string \<Rightarrow> string"
  trim :: "string \<Rightarrow> string"
  bcrypt_hash :: "string \<Rightarrow> string \<Rightarrow> string"
  bcrypt_compare :: "string \<Rightarrow> string \<Rightarrow> bool"
  verifyIdToken :: "string \<Rightarrow> TokenPayload option option"

text \<open>\<open>process.env.JWT_SECRET || 'your-secret-key'\<close>\<close>

definition jwt_secret :: "lib \<Rightarrow> string" where
  "jwt_secret L = (if truthy (JWT_SECRET L) then the (JWT_SECRET L) else ''your-secret-key'')"

text \<open>\<open>expiresIn: '7d'\<close> in seconds.\<close>

definition seven_days :: nat where
  "seven_days = 7 * 24 * 60 * 60"

text \<open>\<open>jwt.sign(payload, secret, { expiresIn })\<close> at time \<open>now\<close>.\<close>

definition jwt_sign :: "claims \<Rightarrow> string \<Rightarrow> nat \<Rightarrow> nat \<Rightarrow> jwt" where
  "jwt_sign c secret expiresIn now = \<lparr>payload = c, iat = now, exp = now + expiresIn, key = secret\<rparr>"

text \<open>\<open>jwt.verify(token, secret, callback)\<close> at time \<open>now\<close>: \<open>None\<close> is the callback's
  \<open>err\<close> (not a token, another signature, or expired), \<open>Some\<close> the decoded payload.\<close>

definition jwt_verify :: "lib \<Rightarrow> string \<Rightarrow> string \<Rightarrow> nat \<Rightarrow> claims option" where
  "jwt_verify L token secret now =
     (case jwt_decode L token of
        None \<Rightarrow> None
      | Some t \<Rightarrow> if key t = secret \<and> now < exp t then Some (payload t) else None)"

section \<open>Responses\<close>

record entry =
  e_symbol :: string
  e_name :: string
  isFavorite :: bool
  addedAt :: nat

text \<open>The \<open>user\<close> object of an auth response; \<open>pu_picture\<close> is \<open>None\<close> where the object
  has no such field.\<close>

record public_user =
  pu_id :: nat
  pu_email :: string
  pu_name :: "string option"
  pu_picture :: "string option option"

datatype reply =
    Message string
  | WatchlistBody "entry list"
  | AuthBody string jwt public_user
  | Errors

datatype response = Response (status: nat) (body: reply)

section \<open>The watchlist router\<close>

text \<open>The statements the watchlist router sends to the store, with their parameters.\<close>

datatype sql =
    SelectWatchlist nat
  | SelectWatchlistSymbol nat string
  | InsertWatchlist nat string string
  | UpdateFavorite bool nat string
  | DeleteWatchlist nat string

fun sql_user :: "sql \<Rightarrow> nat" where
  "sql_user (SelectWatchlist u) = u"
| "sql_user (SelectWatchlistSymbol u s) = u"
| "sql_user (InsertWatchlist u s n) = u"
| "sql_user (UpdateFavorite f u s) = u"
| "sql_user (DeleteWatchlist u s) = u"

text \<open>\<open>String.prototype.split\<close> at one separator character: every occurrence splits,
  so two separators in a row give an empty part, and the empty string gives one empty part.\<close>

fun split :: "char \<Rightarrow> string \<Rightarrow> string list" where
  "split c [] = [[]]"
| "split c (x # xs) =
     (if x = c then [] # split c xs
      else (case split c xs of [] \<Rightarrow> [[x]] | w # ws \<Rightarrow> (x # w) # ws))"

text \<open>\<open>xs[i]\<close> on an array: \<open>undefined\<close> out of range.\<close>

definition at_index :: "'a list \<Rightarrow> nat \<Rightarrow> 'a option" where
  "at_index xs i = (if i < length xs then Some (xs ! i) else None)"

text \<open>\<open>authHeader && authHeader.split(' ')[1]\<close>\<close>

definition header_token :: "string option \<Rightarrow> string option" where
  "header_token authHeader =
     (if truthy authHeader then at_index (split CHR '' '' (the authHeader)) 1 else authHeader)"

text \<open>The middleware \<open>authenticateToken\<close>: \<open>Inl\<close> is the response it sends itself,
  \<open>Inr\<close> the decoded payload it stores in \<open>req.user\<close> before calling \<open>next\<close>.\<close>

definition authenticateToken :: "lib \<Rightarrow> nat \<Rightarrow> string option \<Rightarrow> response + claims" where
  "authenticateToken L now authHeader =
     (let token = header_token authHeader in
      if \<not> truthy token then Inl (Response 401 (Message ''Access token required''))
      else (case jwt_verify L (the token) (jwt_secret L) now of
              None \<Rightarrow> Inl (Response 403 (Message ''Invalid or expired token''))
            | Some user \<Rightarrow> Inr user))"

text \<open>\<open>ORDER BY is_favorite DESC, added_at DESC\<close>: \<open>precedes a b\<close> when row \<open>a\<close> may
  stand before row \<open>b\<close>.\<close>

definition precedes :: "WatchlistItem \<Rightarrow> WatchlistItem \<Rightarrow> bool" where
  "precedes a b \<longleftrightarrow>
     (is_favorite a \<and> \<not> is_favorite b) \<or> (is_favorite a = is_favorite b \<and> added_at b \<le> added_at a)"

fun insert_row :: "WatchlistItem \<Rightarrow> WatchlistItem list \<Rightarrow> WatchlistItem list" where
  "insert_row x [] = [x]"
| "insert_row x (y # ys) = (if precedes x y then x # y # ys else y # insert_row x ys)"

fun order_by :: "WatchlistItem list \<Rightarrow> WatchlistItem list" where
  "order_by [] = []"
| "order_by (x # xs) = insert_row x (order_by xs)"

text \<open>\<open>SELECT * FROM watchlist WHERE user_id = ? ORDER BY is_favorite DESC, added_at DESC\<close>\<close>

definition select_watchlist :: "nat \<Rightarrow> db \<Rightarrow> WatchlistItem list" where
  "select_watchlist u d = order_by (filter (\<lambda>r. user_id r = u) (watchlist d))"

text \<open>\<open>SELECT * FROM watchlist WHERE user_id = ? AND symbol = ?\<close>\<close>

definition select_watchlist_symbol :: "nat \<Rightarrow> string \<Rightarrow> db \<Rightarrow> WatchlistItem list" where
  "select_watchlist_symbol u s d = filter (\<lambda>r. user_id r = u \<and> symbol r = s) (watchlist d)"

text \<open>\<open>INSERT INTO watchlist (user_id, symbol, name, is_favorite) VALUES (?, ?, ?, FALSE)\<close>;
  \<open>added_at\<close> is the time of the insert.\<close>

definition insert_watchlist :: "nat \<Rightarrow> nat \<Rightarrow> string \<Rightarrow> string \<Rightarrow> db \<Rightarrow> db" where
  "insert_watchlist now u s n d =
     d\<lparr>watchlist := watchlist d @
          [\<lparr>wid = insertId (map wid (watchlist d)), user_id = u, symbol = s, wname = n,
            is_favorite = False, added_at = now\<rparr>]\<rparr>"

text \<open>\<open>UPDATE watchlist SET is_favorite = ? WHERE user_id = ? AND symbol = ?\<close>: the new
  table and \<open>affectedRows\<close>, the number of rows the \<open>WHERE\<close> clause matches (mysql2
  connects with the flag FOUND_ROWS).\<close>

definition update_favorite :: "bool \<Rightarrow> nat \<Rightarrow> string \<Rightarrow> db \<Rightarrow> db \<times> nat" where
  "update_favorite f u s d =
     (d\<lparr>watchlist := map (\<lambda>r. if user_id r = u \<and> symbol r = s then r\<lparr>is_favorite := f\<rparr> else r)
                        (watchlist d)\<rparr>,
      length (filter (\<lambda>r. user_id r = u \<and> symbol r = s) (watchlist d)))"

text \<open>\<open>DELETE FROM watchlist WHERE user_id = ? AND symbol = ?\<close>\<close>

definition delete_watchlist :: "nat \<Rightarrow> string \<Rightarrow> db \<Rightarrow> db" where
  "delete_watchlist u s d =
     d\<lparr>watchlist := filter (\<lambda>r. \<not> (user_id r = u \<and> symbol r = s)) (watchlist d)\<rparr>"

definition entry_of :: "WatchlistItem \<Rightarrow> entry" where
  "entry_of item =
     \<lparr>e_symbol = symbol item, e_name = wname item, isFavorite = is_favorite item,
      addedAt = added_at item\<rparr>"

text \<open>
  The four handlers. Each takes \<open>req.user\<close> as the middleware left it and the
  client's input, and returns the response, the store afterwards and the statements it
  sent, in order.
\<close>

text \<open>\<open>router.get('/')\<close>\<close>

definition get_watchlist :: "claims \<Rightarrow> db \<Rightarrow> response \<times> db \<times> sql list" where
  "get_watchlist user d =
     (let u = userId user; rows = select_watchlist u d in
      (Response 200 (WatchlistBody (map entry_of rows)), d, [SelectWatchlist u]))"

text \<open>\<open>router.post('/add')\<close>; \<open>symbol\<close> and \<open>name\<close> are the two fields of the body.\<close>

definition post_add ::
  "nat \<Rightarrow> claims \<Rightarrow> string option \<Rightarrow> string option \<Rightarrow> db \<Rightarrow> response \<times> db \<times> sql list" where
  "post_add now user symb nm d =
     (let u = userId user in
      if \<not> truthy symb \<or> \<not> truthy nm then
        (Response 400 (Message ''Symbol and name are required''), d, [])
      else
        let existing = select_watchlist_symbol u (the symb) d in
        if length existing > 0 then
          (Response 400 (Message ''Stock already in watchlist''), d,
           [SelectWatchlistSymbol u (the symb)])
        else
          (Response 201 (Message ''Stock added to watchlist''),
           insert_watchlist now u (the symb) (the nm) d,
           [SelectWatchlistSymbol u (the symb), InsertWatchlist u (the symb) (the nm)]))"

text \<open>\<open>router.put('/favorite/:symbol')\<close>; \<open>fav\<close> is the field \<open>isFavorite\<close> of the body,
  \<open>None\<close> when the body has none.\<close>

definition put_favorite ::
  "claims \<Rightarrow> string \<Rightarrow> json option \<Rightarrow> db \<Rightarrow> response \<times> db \<times> sql list" where
  "put_favorite user symb fav d =
     (let u = userId user in
      case fav of
        Some (JBool f) \<Rightarrow>
          (let (d', affectedRows) = update_favorite f u symb d in
           if affectedRows = 0 then
             (Response 404 (Message ''Stock not found in watchlist''), d', [UpdateFavorite f u symb])
           else
             (Response 200 (Message (''Stock '' @ (if f then ''favorited'' else ''unfavorited'')
                                      @ '' successfully'')),
              d', [UpdateFavorite f u symb]))
      | _ \<Rightarrow> (Response 400 (Message ''isFavorite must be a boolean''), d, []))"

text \<open>\<open>router.delete('/remove/:symbol')\<close>\<close>

definition delete_remove :: "claims \<Rightarrow> string \<Rightarrow> db \<Rightarrow> response \<times> db \<times> sql list" where
  "delete_remove user symb d =
     (let u = userId user in
      (Response 200 (Message ''Stock removed from watchlist''), delete_watchlist u symb d,
       [DeleteWatchlist u symb]))"

text \<open>A request to the watchlist router, with everything the client supplies apart from
  the Authorization header.\<close>

datatype wl_request =
    GetWatchlist
  | PostAdd "string option" "string option"
  | PutFavorite string "json option"
  | DeleteRemove string

fun wl_handler :: "nat \<Rightarrow> claims \<Rightarrow> wl_request \<Rightarrow> db \<Rightarrow> response \<times> db \<times> sql list" where
  "wl_handler now user GetWatchlist d = get_watchlist user d"
| "wl_handler now user (PostAdd symb nm) d = post_add now user symb nm d"
| "wl_handler now user (PutFavorite symb fav) d = put_favorite user symb fav d"
| "wl_handler now user (DeleteRemove symb) d = delete_remove user symb d"

text \<open>Every route of the router runs \<open>authenticateToken\<close> first; the handler runs only
  when the middleware calls \<open>next\<close>.\<close>

definition watchlist_router ::
  "lib \<Rightarrow> nat \<Rightarrow> string option \<Rightarrow> wl_request \<Rightarrow> db \<Rightarrow> response \<times> db \<times> sql list" where
  "watchlist_router L now authHeader req d =
     (case authenticateToken L now authHeader of
        Inl res \<Rightarrow> (res, d, [])
      | Inr user \<Rightarrow> wl_handler now user req d)"

section \<open>The auth router\<close>

text \<open>A field of the body as the validators read it: an absent field is the empty string.\<close>

definition field :: "string option \<Rightarrow> string" where
  "field v = (case v of None \<Rightarrow> [] | Some s \<Rightarrow> s)"

text \<open>\<open>SELECT * FROM users WHERE email = ?\<close>\<close>

definition select_users_email :: "string \<Rightarrow> db \<Rightarrow> User list" where
  "select_users_email e d = filter (\<lambda>u. email u = e) (users d)"

text \<open>\<open>SELECT * FROM users WHERE id = ?\<close>\<close>

definition select_users_id :: "nat \<Rightarrow> db \<Rightarrow> User list" where
  "select_users_id i d = filter (\<lambda>u. uid u = i) (users d)"

text \<open>\<open>SELECT * FROM users WHERE google_id = ? OR email = ?\<close>; a row whose \<open>google_id\<close>
  is NULL matches by its email only.\<close>

definition select_users_google :: "string \<Rightarrow> string \<Rightarrow> db \<Rightarrow> User list" where
  "select_users_google g e d = filter (\<lambda>u. google_id u = Some g \<or> email u = e) (users d)"

text \<open>An \<open>INSERT INTO users\<close>: the row gets the id the store assigns and the time of the
  insert; the result is the new store and \<open>result.insertId\<close>.\<close>

definition insert_user ::
  "nat \<Rightarrow> string \<Rightarrow> string option \<Rightarrow> string option \<Rightarrow> string option \<Rightarrow> string option
     \<Rightarrow> db \<Rightarrow> db \<times> nat" where
  "insert_user now e pw g n pic d =
     (let i = insertId (map uid (users d)) in
      (d\<lparr>users := users d @
           [\<lparr>uid = i, email = e, password = pw, google_id = g, uname = n, picture = pic,
             created_at = now\<rparr>]\<rparr>, i))"

text \<open>\<open>UPDATE users SET google_id = ?, name = ?, picture = ? WHERE id = ?\<close>\<close>

definition update_user_google ::
  "string \<Rightarrow> string option \<Rightarrow> string option \<Rightarrow> nat \<Rightarrow> db \<Rightarrow> db" where
  "update_user_google g n pic i d =
     d\<lparr>users := map (\<lambda>u. if uid u = i then u\<lparr>google_id := Some g, uname := n, picture := pic\<rparr>
                           else u) (users d)\<rparr>"

text \<open>\<open>router.post('/register')\<close> of auth-db.ts, at time \<open>now\<close>, with the salt
  \<open>bcrypt.genSalt\<close> returns. \<open>em\<close>, \<open>pw\<close> and \<open>nm\<close> are the fields \<open>email\<close>,
  \<open>password\<close> and \<open>name\<close> of the body, strings where present.\<close>

definition register ::
  "lib \<Rightarrow> nat \<Rightarrow> string \<Rightarrow> string option \<Rightarrow> string option \<Rightarrow> string option \<Rightarrow> db
     \<Rightarrow> response \<times> db" where
  "register L now salt em pw nm d =
     (if \<not> (isEmail L (field em) \<and> 6 \<le> length (field pw)) then (Response 400 Errors, d)
      else
        let email' = normalizeEmail L (field em);
            name' = map_option (trim L) nm;
            existingUsers = select_users_email email' d in
        if length existingUsers > 0 then
          (Response 400 (Message ''User already exists with this email''), d)
        else
          let hashedPassword = bcrypt_hash L (field pw) salt;
              (d', i) = insert_user now email' (Some hashedPassword) None (or_null name') None d in
          case select_users_id i d' of
            [] \<Rightarrow> (Response 500 (Message ''Server error''), d')
          | newUser # _ \<Rightarrow>
              (Response 201
                 (AuthBody ''User created successfully''
                    (jwt_sign \<lparr>userId = uid newUser, claim_email = email newUser, extra = []\<rparr>
                       (jwt_secret L) seven_days now)
                    \<lparr>pu_id = uid newUser, pu_email = email newUser, pu_name = uname newUser,
                     pu_picture = None\<rparr>),
               d'))"

text \<open>\<open>bcrypt.compare(password, hash)\<close> with the password as the body has it: bcryptjs
  rejects with "Illegal arguments" (\<open>None\<close>) when the password is not a string.\<close>

definition compare :: "lib \<Rightarrow> json option \<Rightarrow> string \<Rightarrow> bool option" where
  "compare L pw h = (case pw of Some (JStr p) \<Rightarrow> Some (bcrypt_compare L p h) | _ \<Rightarrow> None)"

text \<open>\<open>router.post('/login')\<close> of auth-db.ts. \<open>em\<close> is the field \<open>email\<close> of the body;
  \<open>pw\<close> is the field \<open>password\<close>, which \<open>exists()\<close> accepts unless it is \<open>undefined\<close>.
  A rejection of \<open>bcrypt.compare\<close> ends in the handler's \<open>catch\<close>.\<close>

definition login ::
  "lib \<Rightarrow> nat \<Rightarrow> string option \<Rightarrow> json option \<Rightarrow> db \<Rightarrow> response \<times> db" where
  "login L now em pw d =
     (if \<not> (isEmail L (field em) \<and> pw \<noteq> None) then (Response 400 Errors, d)
      else
        let email' = normalizeEmail L (field em) in
        case select_users_email email' d of
          [] \<Rightarrow> (Response 401 (Message ''Invalid credentials''), d)
        | user # _ \<Rightarrow>
            if \<not> truthy (password user) then
              (Response 401 (Message ''Please sign in with Google''), d)
            else
              (case compare L pw (the (password user)) of
                 None \<Rightarrow> (Response 500 (Message ''Server error''), d)
               | Some isMatch \<Rightarrow>
                   if \<not> isMatch then (Response 401 (Message ''Invalid credentials''), d)
                   else
                     (Response 200
                        (AuthBody ''Login successful''
                           (jwt_sign \<lparr>userId = uid user, claim_email = email user, extra = []\<rparr>
                              (jwt_secret L) seven_days now)
                           \<lparr>pu_id = uid user, pu_email = email user, pu_name = uname user,
                            pu_picture = None\<rparr>),
                      d)))"

section \<open>The Google router\<close>

text \<open>A nullable column in a token payload.\<close>

definition json_of :: "string option \<Rightarrow> json" where
  "json_of v = (case v of None \<Rightarrow> JNull | Some s \<Rightarrow> JStr s)"

text \<open>The end of the handler, from \<open>jwt.sign\<close> on, for the \<open>user\<close> it has settled on.\<close>

definition google_reply :: "lib \<Rightarrow> nat \<Rightarrow> User \<Rightarrow> response" where
  "google_reply L now user =
     Response 200
       (AuthBody ''Google login successful''
          (jwt_sign \<lparr>userId = uid user, claim_email = email user,
                     extra = [(''googleId'', json_of (google_id user))]\<rparr>
             (jwt_secret L) seven_days now)
          \<lparr>pu_id = uid user, pu_email = email user, pu_name = uname user,
           pu_picture = Some (picture user)\<rparr>)"

text \<open>\<open>router.post('/google')\<close> of google-auth-db.ts; \<open>credential\<close> is the field of the
  body. A throw of \<open>verifyIdToken\<close> ends in the handler's \<open>catch\<close>.\<close>

definition google :: "lib \<Rightarrow> nat \<Rightarrow> string option \<Rightarrow> db \<Rightarrow> response \<times> db" where
  "google L now credential d =
     (if \<not> truthy credential then (Response 400 (Message ''No credential provided''), d)
      else
        case verifyIdToken L (the credential) of
          None \<Rightarrow> (Response 500 (Message ''Server error''), d)
        | Some None \<Rightarrow> (Response 400 (Message ''Invalid token''), d)
        | Some (Some p) \<Rightarrow>
            if \<not> truthy (g_email p) then
              (Response 400 (Message ''Email not provided by Google''), d)
            else
              (let googleId = sub p; email' = the (g_email p) in
               case select_users_google googleId email' d of
                 [] \<Rightarrow>
                   (let (d', i) = insert_user now email' None (Some googleId) (g_name p) (g_picture p) d
                    in (case select_users_id i d' of
                          [] \<Rightarrow> (Response 500 (Message ''Server error''), d')
                        | user # _ \<Rightarrow> (google_reply L now user, d')))
               | user # _ \<Rightarrow>
                   if \<not> truthy (google_id user) then
                     (google_reply L now
                        (user\<lparr>google_id := Some googleId, uname := or_null (g_name p),
                              picture := or_null (g_picture p)\<rparr>),
                      update_user_google googleId (g_name p) (g_picture p) (uid user) d)
                   else (google_reply L now user, d)))"

text \<open>A request to one of the three auth routes, with the fields of its body.\<close>

datatype auth_request =
    Register "string option" "string option" "string option"
  | Login "string option" "json option"
  | Google "string option"

fun auth_router :: "lib \<Rightarrow> nat \<Rightarrow> string \<Rightarrow> auth_request \<Rightarrow> db \<Rightarrow> response \<times> db" where
  "auth_router L now salt (Register em pw nm) d = register L now salt em pw nm d"
| "auth_router L now salt (Login em pw) d = login L now em pw d"
| "auth_router L now salt (Google credential) d = google L now credential d"

text \<open>No row and no credential of \<open>xs\<close> is lost in \<open>ys\<close>.\<close>

definition keeps :: "User list \<Rightarrow> User list \<Rightarrow> bool" where
  "keeps xs ys \<longleftrightarrow>
     length xs \<le> length ys
     \<and> (\<forall>i < length xs. password (ys ! i) = password (xs ! i)
            \<and> (truthy (google_id (xs ! i)) \<longrightarrow> google_id (ys ! i) = google_id (xs ! i)))"

section \<open>Sample data\<close>

text \<open>Two users' rows, for the concrete instances below.\<close>

definition row_A :: WatchlistItem where
  "row_A = \<lparr>wid = 1, user_id = 1, symbol = ''AAPL'', wname = ''Apple Inc.'',
            is_favorite = False, added_at = 100\<rparr>"

definition row_B :: WatchlistItem where
  "row_B = \<lparr>wid = 2, user_id = 1, symbol = ''MSFT'', wname = ''Microsoft'',
            is_favorite = True, added_at = 200\<rparr>"

definition row_C :: WatchlistItem where
  "row_C = \<lparr>wid = 3, user_id = 2, symbol = ''AAPL'', wname = ''Apple Inc.'',
            is_favorite = False, added_at = 150\<rparr>"

definition demo_claims :: claims where
  "demo_claims = \<lparr>userId = 1, claim_email = ''ann@example.com'', extra = []\<rparr>"

definition demo_db :: db where
  "demo_db = \<lparr>users = [], watchlist = [row_A, row_B, row_C]\<rparr>"


definition demo_token :: jwt where
  "demo_token = jwt_sign demo_claims ''your-secret-key'' seven_days 1000"

definition demo_payload :: TokenPayload where
  "demo_payload = \<lparr>sub = ''g-1'', g_email = Some ''ann@example.com'', g_name = Some ''Ann'',
                   g_picture = None\<rparr>"

definition demo_lib :: lib where
  "demo_lib =
     \<lparr>JWT_SECRET = None,
      jwt_encode = (\<lambda>t. if t = demo_token then ''eyJ.ann.sig'' else ''eyJ.other.sig''),
      jwt_decode = (\<lambda>s. if s = ''eyJ.ann.sig'' then Some demo_token else None),
      isEmail = (\<lambda>s. CHR ''@'' \<in> set s),
      normalizeEmail = (\<lambda>s. s),
      trim = (\<lambda>s. s),
      bcrypt_hash = (\<lambda>p s. s @ p),
      bcrypt_compare = (\<lambda>p h. drop 4 h = p),
      verifyIdToken = (\<lambda>c. if c = ''google-id-token'' then Some (Some demo_payload) else None)\<rparr>"


definition ann :: User where
  "ann = \<lparr>uid = 1, email = ''ann@example.com'', password = Some ''saltsecret1'', google_id = None,
          uname = Some ''Ann'', picture = None, created_at = 900\<rparr>"

definition bob :: User where
  "bob = \<lparr>uid = 2, email = ''bob@example.com'', password = None, google_id = Some ''g-2'',
          uname = Some ''Bob'', picture = None, created_at = 950\<rparr>"



definition users_db :: db where
  "users_db = \<lparr>users = [ann, bob], watchlist = []\<rparr>"

text \<open>\<open>normalizeEmail\<close> lower-cases an address and removes the dots of the local part
  of a gmail.com address; this library does so for the one such address used below.\<close>

definition gmail_lib :: lib where
  "gmail_lib =
     demo_lib\<lparr>normalizeEmail := (\<lambda>s. if s = ''Cy.Doe@GMAIL.com'' then ''cydoe@gmail.com'' else s)\<rparr>"

definition cy :: User where
  "cy = \<lparr>uid = 3, email = ''cydoe@gmail.com'', password = Some ''saltsecret1'', google_id = None,
         uname = Some ''Cy'', picture = None, created_at = 900\<rparr>"

definition gmail_db :: db where
  "gmail_db = \<lparr>users = [cy], watchlist = []\<rparr>"

section \<open>Removal\<close>

lemma delete_watchlist_absent:
  "select_watchlist_symbol u s d = [] \<Longrightarrow> delete_watchlist u s d = d"
  by (simp add: delete_watchlist_def select_watchlist_symbol_def filter_empty_conv)

lemma delete_watchlist_twice:
  "delete_watchlist u s (delete_watchlist u s d) = delete_watchlist u s d"
  by (simp add: delete_watchlist_def)

text \<open>
  C8. Remove answers 200 whether or not a row matches (user, symbol); when no row
  matches, the store is left as it was; and a second Remove of the same symbol answers
  the same and leaves the store as the first one left it.
\<close>

theorem remove_idempotent:
  "fst (delete_remove user symb d) = Response 200 (Message ''Stock removed from watchlist'')
   \<and> (select_watchlist_symbol (userId user) symb d = [] \<longrightarrow>
        fst (snd (delete_remove user symb d)) = d)
   \<and> fst (delete_remove user symb (fst (snd (delete_remove user symb d))))
        = fst (delete_remove user symb d)
   \<and> fst (snd (delete_remove user symb (fst (snd (delete_remove user symb d)))))
        = fst (snd (delete_remove user symb d))"
  by (simp add: delete_remove_def Let_def delete_watchlist_absent delete_watchlist_twice)

theorem remove_idempotent_witness:
  "select_watchlist_symbol (userId demo_claims) ''GOOG'' demo_db = []
   \<and> fst (delete_remove demo_claims ''GOOG'' demo_db)
        = Response 200 (Message ''Stock removed from watchlist'')
   \<and> fst (snd (delete_remove demo_claims ''GOOG'' demo_db)) = demo_db"
  using remove_idempotent [of demo_claims "''GOOG''" demo_db]
  by (simp add: select_watchlist_symbol_def demo_db_def demo_claims_def row_A_def row_B_def row_C_def)

section \<open>Listing\<close>

lemma precedes_total: "precedes a b \<or> precedes b a"
  by (auto simp: precedes_def)

lemma precedes_trans: "precedes a b \<Longrightarrow> precedes b c \<Longrightarrow> precedes a c"
  by (auto simp: precedes_def)

lemma mset_insert_row: "mset (insert_row x xs) = add_mset x (mset xs)"
  by (induction xs) auto

lemma mset_order_by: "mset (order_by xs) = mset xs"
  by (induction xs) (auto simp: mset_insert_row)

lemma set_insert_row: "set (insert_row x xs) = insert x (set xs)"
  by (induction xs) auto

lemma set_order_by: "set (order_by xs) = set xs"
  by (induction xs) (auto simp: set_insert_row)

lemma sorted_insert_row: "sorted_wrt precedes xs \<Longrightarrow> sorted_wrt precedes (insert_row x xs)"
proof (induction xs)
  case Nil
  then show ?case by simp
next
  case (Cons y ys)
  show ?case
  proof (cases "precedes x y")
    case True
    with Cons.prems show ?thesis by (auto intro: precedes_trans)
  next
    case False
    then have "precedes y x" using precedes_total by blast
    with False Cons show ?thesis by (auto simp: set_insert_row)
  qed
qed

lemma sorted_order_by: "sorted_wrt precedes (order_by xs)"
  by (induction xs) (auto simp: sorted_insert_row)


lemma sorted_select_watchlist: "sorted_wrt precedes (select_watchlist u d)"
  by (simp add: select_watchlist_def sorted_order_by)

lemma mset_select_watchlist:
  "mset (select_watchlist u d) = filter_mset (\<lambda>r. user_id r = u) (mset (watchlist d))"
  by (simp add: select_watchlist_def mset_order_by)

lemma set_select_watchlist:
  "set (select_watchlist u d) = {r \<in> set (watchlist d). user_id r = u}"
  by (simp add: select_watchlist_def set_order_by)

lemma select_watchlist_order:
  "\<forall>i j. i < j \<and> j < length (select_watchlist u d) \<longrightarrow>
     (is_favorite (select_watchlist u d ! j) \<longrightarrow> is_favorite (select_watchlist u d ! i))
   \<and> (is_favorite (select_watchlist u d ! i) = is_favorite (select_watchlist u d ! j)
        \<longrightarrow> added_at (select_watchlist u d ! j) \<le> added_at (select_watchlist u d ! i))"
proof (intro allI impI)
  fix i j
  assume "i < j \<and> j < length (select_watchlist u d)"
  then have "precedes (select_watchlist u d ! i) (select_watchlist u d ! j)"
    using sorted_select_watchlist [of u d] by (simp add: sorted_wrt_iff_nth_less)
  then show "(is_favorite (select_watchlist u d ! j) \<longrightarrow> is_favorite (select_watchlist u d ! i))
   \<and> (is_favorite (select_watchlist u d ! i) = is_favorite (select_watchlist u d ! j)
        \<longrightarrow> added_at (select_watchlist u d ! j) \<le> added_at (select_watchlist u d ! i))"
    by (auto simp: precedes_def)
qed

lemma entry_of_fun:
  "entry_of = (\<lambda>r. \<lparr>e_symbol = symbol r, e_name = wname r, isFavorite = is_favorite r,
                       addedAt = added_at r\<rparr>)"
  by (rule ext) (simp add: entry_of_def)

lemma entries_order:
  "\<forall>i j. i < j \<and> j < length (map entry_of (select_watchlist u d)) \<longrightarrow>
     (isFavorite (map entry_of (select_watchlist u d) ! j)
        \<longrightarrow> isFavorite (map entry_of (select_watchlist u d) ! i))
   \<and> (isFavorite (map entry_of (select_watchlist u d) ! i)
        = isFavorite (map entry_of (select_watchlist u d) ! j)
        \<longrightarrow> addedAt (map entry_of (select_watchlist u d) ! j)
              \<le> addedAt (map entry_of (select_watchlist u d) ! i))"
proof (intro allI impI)
  fix i j
  assume h: "i < j \<and> j < length (map entry_of (select_watchlist u d))"
  then have ij: "i < length (select_watchlist u d)" "j < length (select_watchlist u d)" "i < j"
    by simp_all
  from select_watchlist_order [of u d] ij
  have "(is_favorite (select_watchlist u d ! j) \<longrightarrow> is_favorite (select_watchlist u d ! i))
      \<and> (is_favorite (select_watchlist u d ! i) = is_favorite (select_watchlist u d ! j)
           \<longrightarrow> added_at (select_watchlist u d ! j) \<le> added_at (select_watchlist u d ! i))"
    by blast
  with ij show "(isFavorite (map entry_of (select_watchlist u d) ! j)
        \<longrightarrow> isFavorite (map entry_of (select_watchlist u d) ! i))
   \<and> (isFavorite (map entry_of (select_watchlist u d) ! i)
        = isFavorite (map entry_of (select_watchlist u d) ! j)
        \<longrightarrow> addedAt (map entry_of (select_watchlist u d) ! j)
              \<le> addedAt (map entry_of (select_watchlist u d) ! i))"
    by (simp add: entry_of_def)
qed

lemma entries_mset:
  "mset (map entry_of (select_watchlist u d))
   = image_mset (\<lambda>r. \<lparr>e_symbol = symbol r, e_name = wname r, isFavorite = is_favorite r,
                        addedAt = added_at r\<rparr>)
       (filter_mset (\<lambda>r. user_id r = u) (mset (watchlist d)))"
  by (simp add: mset_select_watchlist entry_of_fun)

text \<open>
  C4. List answers 200 with a list of entries that holds, for each row of the caller
  and for no other row, one entry with that row's symbol, name, favorite flag and time of
  adding. In the list an entry that is a favorite never stands after one that is not, and
  among entries with the same flag the later added stands first. A caller without rows
  gets the empty list. With the two rows A (not a favorite, added first) and B (a
  favorite, added second) the answer is the entry of B, then the entry of A.
\<close>

theorem list_ordering:
  "(\<exists>es. get_watchlist user d = (Response 200 (WatchlistBody es), d, [SelectWatchlist (userId user)])
      \<and> mset es
          = image_mset (\<lambda>r. \<lparr>e_symbol = symbol r, e_name = wname r, isFavorite = is_favorite r,
                               addedAt = added_at r\<rparr>)
              (filter_mset (\<lambda>r. user_id r = userId user) (mset (watchlist d)))
      \<and> (\<forall>i j. i < j \<and> j < length es \<longrightarrow>
            (isFavorite (es ! j) \<longrightarrow> isFavorite (es ! i))
          \<and> (isFavorite (es ! i) = isFavorite (es ! j) \<longrightarrow> addedAt (es ! j) \<le> addedAt (es ! i))))
   \<and> (filter (\<lambda>r. user_id r = userId user) (watchlist d) = [] \<longrightarrow>
        fst (get_watchlist user d) = Response 200 (WatchlistBody []))
   \<and> (watchlist d = [A, B] \<and> user_id A = userId user \<and> user_id B = userId user
        \<and> \<not> is_favorite A \<and> is_favorite B \<and> added_at A < added_at B \<longrightarrow>
        fst (get_watchlist user d)
          = Response 200
              (WatchlistBody
                 [\<lparr>e_symbol = symbol B, e_name = wname B, isFavorite = True, addedAt = added_at B\<rparr>,
                  \<lparr>e_symbol = symbol A, e_name = wname A, isFavorite = False, addedAt = added_at A\<rparr>]))"
proof (intro conjI)
  show "\<exists>es. get_watchlist user d = (Response 200 (WatchlistBody es), d, [SelectWatchlist (userId user)])
      \<and> mset es
          = image_mset (\<lambda>r. \<lparr>e_symbol = symbol r, e_name = wname r, isFavorite = is_favorite r,
                               addedAt = added_at r\<rparr>)
              (filter_mset (\<lambda>r. user_id r = userId user) (mset (watchlist d)))
      \<and> (\<forall>i j. i < j \<and> j < length es \<longrightarrow>
            (isFavorite (es ! j) \<longrightarrow> isFavorite (es ! i))
          \<and> (isFavorite (es ! i) = isFavorite (es ! j) \<longrightarrow> addedAt (es ! j) \<le> addedAt (es ! i)))"
  proof (intro exI [of _ "map entry_of (select_watchlist (userId user) d)"] conjI)
    show "get_watchlist user d
          = (Response 200 (WatchlistBody (map entry_of (select_watchlist (userId user) d))), d,
             [SelectWatchlist (userId user)])"
      by (simp add: get_watchlist_def Let_def)
    show "mset (map entry_of (select_watchlist (userId user) d))
          = image_mset (\<lambda>r. \<lparr>e_symbol = symbol r, e_name = wname r, isFavorite = is_favorite r,
                               addedAt = added_at r\<rparr>)
              (filter_mset (\<lambda>r. user_id r = userId user) (mset (watchlist d)))"
      by (rule entries_mset)
    show "\<forall>i j. i < j \<and> j < length (map entry_of (select_watchlist (userId user) d)) \<longrightarrow>
            (isFavorite (map entry_of (select_watchlist (userId user) d) ! j)
               \<longrightarrow> isFavorite (map entry_of (select_watchlist (userId user) d) ! i))
          \<and> (isFavorite (map entry_of (select_watchlist (userId user) d) ! i)
               = isFavorite (map entry_of (select_watchlist (userId user) d) ! j)
               \<longrightarrow> addedAt (map entry_of (select_watchlist (userId user) d) ! j)
                     \<le> addedAt (map entry_of (select_watchlist (userId user) d) ! i))"
      by (rule entries_order)
  qed
next
  show "filter (\<lambda>r. user_id r = userId user) (watchlist d) = [] \<longrightarrow>
        fst (get_watchlist user d) = Response 200 (WatchlistBody [])"
    by (simp add: get_watchlist_def Let_def select_watchlist_def)
next
  show "watchlist d = [A, B] \<and> user_id A = userId user \<and> user_id B = userId user
        \<and> \<not> is_favorite A \<and> is_favorite B \<and> added_at A < added_at B \<longrightarrow>
        fst (get_watchlist user d)
          = Response 200
              (WatchlistBody
                 [\<lparr>e_symbol = symbol B, e_name = wname B, isFavorite = True, addedAt = added_at B\<rparr>,
                  \<lparr>e_symbol = symbol A, e_name = wname A, isFavorite = False, addedAt = added_at A\<rparr>])"
    by (simp add: get_watchlist_def Let_def select_watchlist_def precedes_def entry_of_def)
qed

theorem list_ordering_witness:
  "watchlist (demo_db\<lparr>watchlist := [row_A, row_B]\<rparr>) = [row_A, row_B]
   \<and> user_id row_A = userId demo_claims \<and> user_id row_B = userId demo_claims
   \<and> \<not> is_favorite row_A \<and> is_favorite row_B \<and> added_at row_A < added_at row_B
   \<and> fst (get_watchlist demo_claims (demo_db\<lparr>watchlist := [row_A, row_B]\<rparr>))
       = Response 200
           (WatchlistBody
              [\<lparr>e_symbol = ''MSFT'', e_name = ''Microsoft'', isFavorite = True, addedAt = 200\<rparr>,
               \<lparr>e_symbol = ''AAPL'', e_name = ''Apple Inc.'', isFavorite = False, addedAt = 100\<rparr>])
   \<and> filter (\<lambda>r. user_id r = userId demo_claims) (watchlist (demo_db\<lparr>watchlist := [row_C]\<rparr>)) = []
   \<and> fst (get_watchlist demo_claims (demo_db\<lparr>watchlist := [row_C]\<rparr>)) = Response 200 (WatchlistBody [])"
  using list_ordering [of demo_claims "demo_db\<lparr>watchlist := [row_A, row_B]\<rparr>" row_A row_B]
        list_ordering [of demo_claims "demo_db\<lparr>watchlist := [row_C]\<rparr>" row_A row_B]
  by (simp add: demo_db_def demo_claims_def row_A_def row_B_def row_C_def)

section \<open>Toggling the favorite flag\<close>

lemma update_favorite_absent:
  "select_watchlist_symbol u s d = [] \<Longrightarrow> update_favorite f u s d = (d, 0)"
proof -
  assume a: "select_watchlist_symbol u s d = []"
  then have "\<forall>r \<in> set (watchlist d). \<not> (user_id r = u \<and> symbol r = s)"
    by (simp add: select_watchlist_symbol_def filter_empty_conv)
  then have "map (\<lambda>r. if user_id r = u \<and> symbol r = s then r\<lparr>is_favorite := f\<rparr> else r) (watchlist d)
             = watchlist d"
    by (intro map_idI) auto
  with a show ?thesis
    by (simp add: update_favorite_def select_watchlist_symbol_def)
qed

lemma update_favorite_count:
  "snd (update_favorite f u s d) = length (select_watchlist_symbol u s d)"
  by (simp add: update_favorite_def select_watchlist_symbol_def)

lemma update_favorite_watchlist:
  "watchlist (fst (update_favorite f u s d))
     = map (\<lambda>r. if user_id r = u \<and> symbol r = s then r\<lparr>is_favorite := f\<rparr> else r) (watchlist d)"
  by (simp add: update_favorite_def)

lemma update_favorite_users: "users (fst (update_favorite f u s d)) = users d"
  by (simp add: update_favorite_def)

lemma set_flag_filter:
  "filter (\<lambda>r. user_id r = u \<and> symbol r = s)
     (map (\<lambda>r. if user_id r = u \<and> symbol r = s then r\<lparr>is_favorite := f\<rparr> else r) xs)
   = map (\<lambda>r. r\<lparr>is_favorite := f\<rparr>) (filter (\<lambda>r. user_id r = u \<and> symbol r = s) xs)"
  by (induction xs) auto

lemma set_flag_twice:
  "map (\<lambda>r. if user_id r = u \<and> symbol r = s then r\<lparr>is_favorite := f\<rparr> else r)
     (map (\<lambda>r. if user_id r = u \<and> symbol r = s then r\<lparr>is_favorite := f\<rparr> else r) xs)
   = map (\<lambda>r. if user_id r = u \<and> symbol r = s then r\<lparr>is_favorite := f\<rparr> else r) xs"
  by (induction xs) auto

lemma update_favorite_twice:
  "update_favorite f u s (fst (update_favorite f u s d)) = update_favorite f u s d"
  by (simp add: update_favorite_def set_flag_filter set_flag_twice)

lemma put_favorite_bool:
  "put_favorite user symb (Some (JBool f)) d =
     (if select_watchlist_symbol (userId user) symb d = [] then
        (Response 404 (Message ''Stock not found in watchlist''), d, [UpdateFavorite f (userId user) symb])
      else
        (Response 200 (Message (if f then ''Stock favorited successfully''
                                else ''Stock unfavorited successfully'')),
         fst (update_favorite f (userId user) symb d), [UpdateFavorite f (userId user) symb]))"
  by (simp add: put_favorite_def Let_def case_prod_beta update_favorite_count update_favorite_absent)

text \<open>
  C5. ToggleFavorite answers 400 when isFavorite is not a boolean. With a boolean it
  answers 404 exactly when no row matches (user, symbol), and the store is then as it was;
  otherwise it answers 200 with the message for the new state and sets the flag of the
  matching rows, and the same call again gives the same answer and the same store.
\<close>

theorem toggle_favorite:
  "((\<forall>f. fav \<noteq> Some (JBool f)) \<longrightarrow>
      put_favorite user symb fav d = (Response 400 (Message ''isFavorite must be a boolean''), d, []))
   \<and> (status (fst (put_favorite user symb (Some (JBool f)) d)) = 404
        \<longleftrightarrow> select_watchlist_symbol (userId user) symb d = [])
   \<and> (select_watchlist_symbol (userId user) symb d = [] \<longrightarrow>
        put_favorite user symb (Some (JBool f)) d =
          (Response 404 (Message ''Stock not found in watchlist''), d,
           [UpdateFavorite f (userId user) symb]))
   \<and> (select_watchlist_symbol (userId user) symb d \<noteq> [] \<longrightarrow>
        (\<exists>d'. put_favorite user symb (Some (JBool f)) d =
               (Response 200 (Message (if f then ''Stock favorited successfully''
                                       else ''Stock unfavorited successfully'')),
                d', [UpdateFavorite f (userId user) symb])
          \<and> watchlist d' =
              map (\<lambda>r. if user_id r = userId user \<and> symbol r = symb then r\<lparr>is_favorite := f\<rparr> else r)
                  (watchlist d)
          \<and> users d' = users d
          \<and> select_watchlist_symbol (userId user) symb d' \<noteq> []
          \<and> put_favorite user symb (Some (JBool f)) d' = put_favorite user symb (Some (JBool f)) d))"
proof (intro conjI impI)
  assume "\<forall>f. fav \<noteq> Some (JBool f)"
  then show "put_favorite user symb fav d = (Response 400 (Message ''isFavorite must be a boolean''), d, [])"
    by (auto simp: put_favorite_def Let_def split: option.splits json.splits)
next
  show "(status (fst (put_favorite user symb (Some (JBool f)) d)) = 404)
        = (select_watchlist_symbol (userId user) symb d = [])"
    by (simp add: put_favorite_bool)
next
  assume "select_watchlist_symbol (userId user) symb d = []"
  then show "put_favorite user symb (Some (JBool f)) d =
          (Response 404 (Message ''Stock not found in watchlist''), d,
           [UpdateFavorite f (userId user) symb])"
    by (simp add: put_favorite_bool)
next
  assume ne: "select_watchlist_symbol (userId user) symb d \<noteq> []"
  let ?d' = "fst (update_favorite f (userId user) symb d)"
  have len: "length (select_watchlist_symbol (userId user) symb ?d')
           = length (select_watchlist_symbol (userId user) symb d)"
    using update_favorite_twice [of f "userId user" symb d]
          update_favorite_count [of f "userId user" symb ?d']
          update_favorite_count [of f "userId user" symb d]
    by simp
  with ne have ne': "select_watchlist_symbol (userId user) symb ?d' \<noteq> []"
    by auto
  have twice: "fst (update_favorite f (userId user) symb ?d') = ?d'"
    by (simp add: update_favorite_twice)
  show "\<exists>d'. put_favorite user symb (Some (JBool f)) d =
               (Response 200 (Message (if f then ''Stock favorited successfully''
                                       else ''Stock unfavorited successfully'')),
                d', [UpdateFavorite f (userId user) symb])
          \<and> watchlist d' =
              map (\<lambda>r. if user_id r = userId user \<and> symbol r = symb then r\<lparr>is_favorite := f\<rparr> else r)
                  (watchlist d)
          \<and> users d' = users d
          \<and> select_watchlist_symbol (userId user) symb d' \<noteq> []
          \<and> put_favorite user symb (Some (JBool f)) d' = put_favorite user symb (Some (JBool f)) d"
    using ne ne' twice
    by (intro exI [of _ ?d'])
       (simp add: put_favorite_bool update_favorite_watchlist update_favorite_users)
qed


theorem toggle_favorite_witness:
  "(\<forall>f. Some (JStr ''yes'') \<noteq> Some (JBool f))
   \<and> put_favorite demo_claims ''AAPL'' (Some (JStr ''yes'')) demo_db
       = (Response 400 (Message ''isFavorite must be a boolean''), demo_db, [])
   \<and> select_watchlist_symbol (userId demo_claims) ''GOOG'' demo_db = []
   \<and> put_favorite demo_claims ''GOOG'' (Some (JBool True)) demo_db
       = (Response 404 (Message ''Stock not found in watchlist''), demo_db, [UpdateFavorite True 1 ''GOOG''])
   \<and> select_watchlist_symbol (userId demo_claims) ''AAPL'' demo_db \<noteq> []
   \<and> fst (put_favorite demo_claims ''AAPL'' (Some (JBool True)) demo_db)
       = Response 200 (Message ''Stock favorited successfully'')
   \<and> put_favorite demo_claims ''AAPL'' (Some (JBool True))
         (fst (snd (put_favorite demo_claims ''AAPL'' (Some (JBool True)) demo_db)))
       = put_favorite demo_claims ''AAPL'' (Some (JBool True)) demo_db"
  using toggle_favorite [where fav = "Some (JStr ''yes'')" and user = demo_claims
                           and symb = "''AAPL''" and d = demo_db and f = True]
        toggle_favorite [where fav = "Some (JStr ''yes'')" and user = demo_claims
                           and symb = "''GOOG''" and d = demo_db and f = True]
  by (auto simp: select_watchlist_symbol_def demo_db_def demo_claims_def row_A_def row_B_def row_C_def)

section \<open>Scoping by the verified user id\<close>

lemma insert_watchlist_others:
  "filter (\<lambda>r. user_id r \<noteq> u) (watchlist (insert_watchlist now u s n d))
   = filter (\<lambda>r. user_id r \<noteq> u) (watchlist d)"
  by (simp add: insert_watchlist_def)

lemma update_favorite_others:
  "filter (\<lambda>r. user_id r \<noteq> u) (watchlist (fst (update_favorite f u s d)))
   = filter (\<lambda>r. user_id r \<noteq> u) (watchlist d)"
proof -
  have "filter (\<lambda>r. user_id r \<noteq> u)
          (map (\<lambda>r. if user_id r = u \<and> symbol r = s then r\<lparr>is_favorite := f\<rparr> else r) xs)
        = filter (\<lambda>r. user_id r \<noteq> u) xs" for xs :: "WatchlistItem list"
    by (induction xs) auto
  then show ?thesis by (simp add: update_favorite_def)
qed

lemma delete_watchlist_others:
  "filter (\<lambda>r. user_id r \<noteq> u) (watchlist (delete_watchlist u s d))
   = filter (\<lambda>r. user_id r \<noteq> u) (watchlist d)"
  by (auto simp: delete_watchlist_def intro: filter_cong)

lemma delete_watchlist_users: "users (delete_watchlist u s d) = users d"
  by (simp add: delete_watchlist_def)

lemma insert_watchlist_users: "users (insert_watchlist now u s n d) = users d"
  by (simp add: insert_watchlist_def)

lemma wl_handler_scoped:
  assumes "wl_handler now user req d = (res, d', qs)"
  shows "(\<forall>q \<in> set qs. sql_user q = userId user)
       \<and> filter (\<lambda>r. user_id r \<noteq> userId user) (watchlist d')
           = filter (\<lambda>r. user_id r \<noteq> userId user) (watchlist d)
       \<and> users d' = users d"
proof (cases req)
  case GetWatchlist
  with assms show ?thesis by (auto simp: get_watchlist_def Let_def)
next
  case (PostAdd symb nm)
  with assms show ?thesis
    by (auto simp: post_add_def Let_def insert_watchlist_others insert_watchlist_users split: if_splits)
next
  case (PutFavorite symb fav)
  with assms show ?thesis
    using update_favorite_others [of "userId user" _ symb d]
    by (auto simp: put_favorite_def Let_def update_favorite_users case_prod_beta
             split: if_splits option.splits json.splits)
next
  case (DeleteRemove symb)
  with assms show ?thesis
    by (auto simp: delete_remove_def Let_def delete_watchlist_others delete_watchlist_users)
qed

lemma wl_handler_rows:
  assumes "wl_handler now user req d = (res, d', qs)" "body res = WatchlistBody es"
  shows "es = map entry_of (select_watchlist (userId user) d)"
  using assms
  by (cases req)
     (auto simp: get_watchlist_def post_add_def put_favorite_def delete_remove_def Let_def
                 case_prod_beta split: if_splits option.splits json.splits)


lemma authenticateToken_Inr:
  assumes "authenticateToken L now authHeader = Inr user"
  shows "truthy (header_token authHeader)
       \<and> jwt_verify L (the (header_token authHeader)) (jwt_secret L) now = Some user"
  using assms by (auto simp: authenticateToken_def Let_def split: if_splits option.splits)

lemma jwt_verify_Some:
  assumes "jwt_verify L tok secret now = Some user"
  shows "\<exists>t. jwt_decode L tok = Some t \<and> payload t = user \<and> key t = secret \<and> now < exp t"
  using assms by (auto simp: jwt_verify_def split: option.splits if_splits)

text \<open>
  C1. When the middleware accepts the header, the payload it leaves in \<open>req.user\<close> is
  the payload of a token signed with the server's secret and not expired. Whatever the
  request and its client-supplied fields, every statement the handler sends carries the
  user id of that payload, every row of a listing is a row of that user, and the rows of
  every other user, and the user table, are as before.
\<close>

theorem watchlist_scoped:
  assumes "authenticateToken L now authHeader = Inr user"
      and "watchlist_router L now authHeader req d = (res, d', qs)"
  shows "(\<exists>t. jwt_decode L (the (header_token authHeader)) = Some t \<and> key t = jwt_secret L
              \<and> now < exp t \<and> userId (payload t) = userId user)
       \<and> (\<forall>q \<in> set qs. sql_user q = userId user)
       \<and> (\<forall>es. body res = WatchlistBody es \<longrightarrow>
             (\<exists>rows. es = map entry_of rows
                \<and> (\<forall>r \<in> set rows. r \<in> set (watchlist d) \<and> user_id r = userId user)))
       \<and> filter (\<lambda>r. user_id r \<noteq> userId user) (watchlist d')
           = filter (\<lambda>r. user_id r \<noteq> userId user) (watchlist d)
       \<and> users d' = users d"
proof -
  from assms have h: "wl_handler now user req d = (res, d', qs)"
    by (simp add: watchlist_router_def)
  have tok: "\<exists>t. jwt_decode L (the (header_token authHeader)) = Some t \<and> key t = jwt_secret L
              \<and> now < exp t \<and> userId (payload t) = userId user"
    using authenticateToken_Inr [OF assms(1)] jwt_verify_Some by blast
  have rows: "\<forall>es. body res = WatchlistBody es \<longrightarrow>
             (\<exists>rows. es = map entry_of rows
                \<and> (\<forall>r \<in> set rows. r \<in> set (watchlist d) \<and> user_id r = userId user))"
  proof (intro allI impI)
    fix es assume "body res = WatchlistBody es"
    then have "es = map entry_of (select_watchlist (userId user) d)"
      using wl_handler_rows [OF h] by simp
    then show "\<exists>rows. es = map entry_of rows
                \<and> (\<forall>r \<in> set rows. r \<in> set (watchlist d) \<and> user_id r = userId user)"
      by (intro exI [of _ "select_watchlist (userId user) d"]) (simp add: set_select_watchlist)
  qed
  from tok rows wl_handler_scoped [OF h] show ?thesis by blast
qed

theorem watchlist_scoped_witness:
  "authenticateToken demo_lib 2000 (Some ''Bearer eyJ.ann.sig'') = Inr demo_claims
   \<and> watchlist_router demo_lib 2000 (Some ''Bearer eyJ.ann.sig'') (DeleteRemove ''AAPL'') demo_db
       = (Response 200 (Message ''Stock removed from watchlist''),
          demo_db\<lparr>watchlist := [row_B, row_C]\<rparr>, [DeleteWatchlist 1 ''AAPL''])
   \<and> filter (\<lambda>r. user_id r \<noteq> userId demo_claims) [row_B, row_C]
       = filter (\<lambda>r. user_id r \<noteq> userId demo_claims) (watchlist demo_db)"
proof -
  have a: "authenticateToken demo_lib 2000 (Some ''Bearer eyJ.ann.sig'') = Inr demo_claims"
    by (simp add: authenticateToken_def header_token_def at_index_def jwt_verify_def jwt_secret_def
        demo_lib_def demo_token_def jwt_sign_def seven_days_def)
  have r: "watchlist_router demo_lib 2000 (Some ''Bearer eyJ.ann.sig'') (DeleteRemove ''AAPL'') demo_db
       = (Response 200 (Message ''Stock removed from watchlist''),
          demo_db\<lparr>watchlist := [row_B, row_C]\<rparr>, [DeleteWatchlist 1 ''AAPL''])"
    by (simp add: watchlist_router_def a delete_remove_def delete_watchlist_def
        demo_db_def demo_claims_def row_A_def row_B_def row_C_def)
  from watchlist_scoped [OF a r] a r show ?thesis by simp
qed

section \<open>The middleware\<close>

lemma split_no_sep: "c \<notin> set t \<Longrightarrow> split c t = [t]"
  by (induction t) auto

lemma split_first: "c \<notin> set w \<Longrightarrow> split c (w @ c # rest) = w # split c rest"
  by (induction w) auto

lemma header_token_second:
  assumes "CHR '' '' \<notin> set w" "CHR '' '' \<notin> set t"
  shows "header_token (Some (w @ '' '' @ t)) = Some t"
    and "header_token (Some (w @ '' '' @ t @ '' '' @ rest)) = Some t"
  using assms by (simp_all add: header_token_def at_index_def split_first split_no_sep)

lemma header_token_none:
  assumes "authHeader = None \<or> CHR '' '' \<notin> set (the authHeader)"
  shows "\<not> truthy (header_token authHeader)"
proof (cases authHeader)
  case None
  then show ?thesis by (simp add: header_token_def)
next
  case (Some h)
  with assms show ?thesis by (simp add: header_token_def at_index_def split_no_sep)
qed

text \<open>
  C10, as the code has it. The token is the second part of the Authorization header split at every
  space: the text between the first and the second space, or up to the end when there is
  one space only. The scheme word is not looked at. When the header is absent, has no
  space, or has an empty second part, the router answers 401 "Access token required"
  without verifying anything; when the second part is no token, is signed with another
  secret or has expired, it answers 403. Whenever the middleware answers itself, the store
  is untouched and no statement is sent.
\<close>

theorem middleware_token:
  "(CHR '' '' \<notin> set w \<and> CHR '' '' \<notin> set t \<longrightarrow>
       header_token (Some (w @ '' '' @ t)) = Some t
     \<and> header_token (Some (w @ '' '' @ t @ '' '' @ rest)) = Some t)
   \<and> (truthy (header_token authHeader) \<longrightarrow>
        authenticateToken L now authHeader =
          (case jwt_verify L (the (header_token authHeader)) (jwt_secret L) now of
             None \<Rightarrow> Inl (Response 403 (Message ''Invalid or expired token''))
           | Some user \<Rightarrow> Inr user))
   \<and> (authHeader = None \<or> CHR '' '' \<notin> set (the authHeader) \<longrightarrow> \<not> truthy (header_token authHeader))
   \<and> (\<not> truthy (header_token authHeader) \<longrightarrow>
        watchlist_router L now authHeader req d
          = (Response 401 (Message ''Access token required''), d, []))
   \<and> (jwt_decode L tok = None \<or> (\<exists>j. jwt_decode L tok = Some j \<and> (key j \<noteq> jwt_secret L \<or> exp j \<le> now))
        \<longrightarrow> jwt_verify L tok (jwt_secret L) now = None)
   \<and> (truthy (header_token authHeader)
        \<and> jwt_verify L (the (header_token authHeader)) (jwt_secret L) now = None \<longrightarrow>
        watchlist_router L now authHeader req d
          = (Response 403 (Message ''Invalid or expired token''), d, []))
   \<and> (authenticateToken L now authHeader = Inl res \<longrightarrow>
        watchlist_router L now authHeader req d = (res, d, []))"
proof (intro conjI impI)
  assume "CHR '' '' \<notin> set w \<and> CHR '' '' \<notin> set t"
  then show "header_token (Some (w @ '' '' @ t)) = Some t"
    and "header_token (Some (w @ '' '' @ t @ '' '' @ rest)) = Some t"
    using header_token_second by blast+
next
  assume "truthy (header_token authHeader)"
  then show "authenticateToken L now authHeader =
          (case jwt_verify L (the (header_token authHeader)) (jwt_secret L) now of
             None \<Rightarrow> Inl (Response 403 (Message ''Invalid or expired token''))
           | Some user \<Rightarrow> Inr user)"
    by (simp add: authenticateToken_def Let_def)
next
  assume "authHeader = None \<or> CHR '' '' \<notin> set (the authHeader)"
  then show "\<not> truthy (header_token authHeader)" by (rule header_token_none)
next
  assume "\<not> truthy (header_token authHeader)"
  then show "watchlist_router L now authHeader req d
          = (Response 401 (Message ''Access token required''), d, [])"
    by (simp add: watchlist_router_def authenticateToken_def Let_def)
next
  assume "jwt_decode L tok = None \<or> (\<exists>j. jwt_decode L tok = Some j \<and> (key j \<noteq> jwt_secret L \<or> exp j \<le> now))"
  then show "jwt_verify L tok (jwt_secret L) now = None"
    by (auto simp: jwt_verify_def)
next
  assume "truthy (header_token authHeader)
        \<and> jwt_verify L (the (header_token authHeader)) (jwt_secret L) now = None"
  then show "watchlist_router L now authHeader req d
          = (Response 403 (Message ''Invalid or expired token''), d, [])"
    by (simp add: watchlist_router_def authenticateToken_def Let_def)
next
  assume "authenticateToken L now authHeader = Inl res"
  then show "watchlist_router L now authHeader req d = (res, d, [])"
    by (simp add: watchlist_router_def)
qed

text \<open>The token is not the whole text after the first space: a third word is dropped.\<close>

theorem middleware_token_counterexample:
  "header_token (Some ''Bearer tok extra'') = Some ''tok''
   \<and> header_token (Some ''Bearer tok extra'') \<noteq> Some ''tok extra''"
  by (simp add: header_token_def at_index_def)


theorem middleware_token_witness:
  "header_token (Some ''Token x.y.z'') = Some ''x.y.z''
   \<and> header_token (Some ''Token x.y.z junk'') = Some ''x.y.z''
   \<and> authenticateToken demo_lib 2000 (Some ''Token eyJ.ann.sig'') = Inr demo_claims
   \<and> watchlist_router demo_lib 2000 (Some ''Bearer'') GetWatchlist demo_db
       = (Response 401 (Message ''Access token required''), demo_db, [])
   \<and> watchlist_router demo_lib 2000 None GetWatchlist demo_db
       = (Response 401 (Message ''Access token required''), demo_db, [])
   \<and> jwt_verify demo_lib ''eyJ.ann.sig'' (jwt_secret demo_lib) 700000 = None
   \<and> watchlist_router demo_lib 700000 (Some ''Bearer eyJ.ann.sig'') GetWatchlist demo_db
       = (Response 403 (Message ''Invalid or expired token''), demo_db, [])
   \<and> watchlist_router demo_lib 2000 (Some ''Bearer not-a-token'') GetWatchlist demo_db
       = (Response 403 (Message ''Invalid or expired token''), demo_db, [])"
proof -
  have tok: "header_token (Some ''Bearer eyJ.ann.sig'') = Some ''eyJ.ann.sig''"
            "header_token (Some ''Token eyJ.ann.sig'') = Some ''eyJ.ann.sig''"
            "header_token (Some ''Bearer not-a-token'') = Some ''not-a-token''"
            "header_token (Some ''Bearer'') = None" "header_token None = None"
    by (simp_all add: header_token_def at_index_def)
  have dec: "jwt_decode demo_lib ''eyJ.ann.sig'' = Some demo_token"
            "jwt_decode demo_lib ''not-a-token'' = None"
    by (simp_all add: demo_lib_def)
  have tk: "key demo_token = jwt_secret demo_lib" "exp demo_token = 605800"
           "payload demo_token = demo_claims"
    by (simp_all add: demo_token_def jwt_sign_def jwt_secret_def demo_lib_def seven_days_def)
  have ver: "jwt_verify demo_lib ''eyJ.ann.sig'' (jwt_secret demo_lib) 2000 = Some demo_claims"
    by (simp add: jwt_verify_def dec tk)
  show ?thesis
    using middleware_token [where w = "''Token''" and t = "''x.y.z''" and rest = "''junk''"
            and authHeader = "Some ''Token eyJ.ann.sig''" and L = demo_lib and now = 2000
            and tok = "''not-a-token''" and req = GetWatchlist and d = demo_db]
          middleware_token [where w = "''Token''" and t = "''x.y.z''" and rest = "''junk''"
            and authHeader = "Some ''Bearer''" and L = demo_lib and now = 2000
            and tok = "''not-a-token''" and req = GetWatchlist and d = demo_db]
          middleware_token [where w = "''Token''" and t = "''x.y.z''" and rest = "''junk''"
            and authHeader = None and L = demo_lib and now = 2000
            and tok = "''not-a-token''" and req = GetWatchlist and d = demo_db]
          middleware_token [where w = "''Token''" and t = "''x.y.z''" and rest = "''junk''"
            and authHeader = "Some ''Bearer eyJ.ann.sig''" and L = demo_lib and now = 700000
            and tok = "''eyJ.ann.sig''" and req = GetWatchlist and d = demo_db]
          middleware_token [where w = "''Token''" and t = "''x.y.z''" and rest = "''junk''"
            and authHeader = "Some ''Bearer not-a-token''" and L = demo_lib and now = 2000
            and tok = "''not-a-token''" and req = GetWatchlist and d = demo_db]
    by (simp add: tok dec tk ver)
qed

section \<open>Login\<close>

text \<open>
  C2, as the code has it. A request that fails validation (an email \<open>isEmail\<close> rejects,
  or no password field) is answered 400. For a request that passes validation, Login
  answers 401 "Invalid credentials" when no row has the email and 401 "Please sign in with
  Google", another message, when the first such row has no password hash; when the password
  is a string, it answers 401 exactly in these two cases and when \<open>bcrypt.compare\<close> fails
  on the row's hash, and an unknown email and a wrong password give the same response.
\<close>

theorem login_unauthorized:
  "(\<not> (isEmail L (field em) \<and> pw \<noteq> None) \<longrightarrow> login L now em pw d = (Response 400 Errors, d))
   \<and> (status (fst (login L now em (Some (JStr p)) d)) = 401 \<longleftrightarrow>
        isEmail L (field em)
        \<and> (select_users_email (normalizeEmail L (field em)) d = []
           \<or> \<not> truthy (password (hd (select_users_email (normalizeEmail L (field em)) d)))
           \<or> \<not> bcrypt_compare L p
                 (the (password (hd (select_users_email (normalizeEmail L (field em)) d))))))
   \<and> (isEmail L (field em) \<and> pw \<noteq> None
        \<and> select_users_email (normalizeEmail L (field em)) d = [] \<longrightarrow>
        login L now em pw d = (Response 401 (Message ''Invalid credentials''), d))
   \<and> (isEmail L (field em) \<and> pw \<noteq> None
        \<and> select_users_email (normalizeEmail L (field em)) d \<noteq> []
        \<and> \<not> truthy (password (hd (select_users_email (normalizeEmail L (field em)) d))) \<longrightarrow>
        login L now em pw d = (Response 401 (Message ''Please sign in with Google''), d))
   \<and> (isEmail L (field em)
        \<and> select_users_email (normalizeEmail L (field em)) d \<noteq> []
        \<and> truthy (password (hd (select_users_email (normalizeEmail L (field em)) d)))
        \<and> \<not> bcrypt_compare L p
               (the (password (hd (select_users_email (normalizeEmail L (field em)) d)))) \<longrightarrow>
        login L now em (Some (JStr p)) d = (Response 401 (Message ''Invalid credentials''), d))
   \<and> Message ''Please sign in with Google'' \<noteq> Message ''Invalid credentials''"
  by (cases "select_users_email (normalizeEmail L (field em)) d")
     (simp_all add: login_def compare_def Let_def)

text \<open>An address that is no email and that no row has is answered 400, not 401. With the
  password \<open>null\<close>, an unknown email is answered 401 and the email of a row with a hash
  500: the two differ.\<close>

theorem login_unauthorized_counterexample:
  "select_users_email (normalizeEmail demo_lib (field (Some ''not-an-email''))) users_db = []
   \<and> login demo_lib 1000 (Some ''not-an-email'') (Some (JStr ''secret1'')) users_db
       = (Response 400 Errors, users_db)
   \<and> login demo_lib 1000 (Some ''zed@example.com'') (Some JNull) users_db
       = (Response 401 (Message ''Invalid credentials''), users_db)
   \<and> login demo_lib 1000 (Some ''ann@example.com'') (Some JNull) users_db
       = (Response 500 (Message ''Server error''), users_db)"
  by (simp add: login_def compare_def Let_def select_users_email_def field_def demo_lib_def
      users_db_def ann_def bob_def)

theorem login_unauthorized_witness:
  "\<not> (isEmail demo_lib (field (Some ''not-an-email'')) \<and> Some (JStr ''secret1'') \<noteq> None)
   \<and> login demo_lib 1000 (Some ''not-an-email'') (Some (JStr ''secret1'')) users_db
       = (Response 400 Errors, users_db)
   \<and> isEmail demo_lib (field (Some ''zed@example.com''))
   \<and> select_users_email (normalizeEmail demo_lib (field (Some ''zed@example.com''))) users_db = []
   \<and> login demo_lib 1000 (Some ''zed@example.com'') (Some (JStr ''secret1'')) users_db
       = (Response 401 (Message ''Invalid credentials''), users_db)
   \<and> \<not> truthy (password (hd (select_users_email
                 (normalizeEmail demo_lib (field (Some ''bob@example.com''))) users_db)))
   \<and> login demo_lib 1000 (Some ''bob@example.com'') (Some (JStr ''secret1'')) users_db
       = (Response 401 (Message ''Please sign in with Google''), users_db)
   \<and> \<not> bcrypt_compare demo_lib ''wrong-password''
          (the (password (hd (select_users_email
                 (normalizeEmail demo_lib (field (Some ''ann@example.com''))) users_db))))
   \<and> login demo_lib 1000 (Some ''ann@example.com'') (Some (JStr ''wrong-password'')) users_db
       = (Response 401 (Message ''Invalid credentials''), users_db)
   \<and> status (fst (login demo_lib 1000 (Some ''ann@example.com'') (Some (JStr ''secret1'')) users_db))
       = 200"
  using login_unauthorized [of demo_lib "Some ''not-an-email''" "Some (JStr ''secret1'')" 1000
                               users_db "''secret1''"]
        login_unauthorized [of demo_lib "Some ''zed@example.com''" "Some (JStr ''secret1'')" 1000
                               users_db "''secret1''"]
        login_unauthorized [of demo_lib "Some ''bob@example.com''" "Some (JStr ''secret1'')" 1000
                               users_db "''secret1''"]
        login_unauthorized [of demo_lib "Some ''ann@example.com''" "Some (JStr ''wrong-password'')" 1000
                               users_db "''wrong-password''"]
  by (simp add: login_def compare_def Let_def select_users_email_def field_def demo_lib_def
      users_db_def ann_def bob_def)

section \<open>Register, then login\<close>

lemma fold_max_ge: "a \<le> fold max xs (a::nat)"
proof (induction xs arbitrary: a)
  case Nil
  then show ?case by simp
next
  case (Cons x xs)
  have "a \<le> max x a" by simp
  also have "max x a \<le> fold max xs (max x a)" by (rule Cons.IH)
  finally show ?case by simp
qed

lemma fold_max_mem: "x \<in> set xs \<Longrightarrow> x \<le> fold max xs (a::nat)"
proof (induction xs arbitrary: a)
  case Nil
  then show ?case by simp
next
  case (Cons y ys)
  show ?case
  proof (cases "x = y")
    case True
    have "x \<le> max y a" using True by simp
    also have "max y a \<le> fold max ys (max y a)" by (rule fold_max_ge)
    finally show ?thesis by simp
  next
    case False
    with Cons.prems have "x \<in> set ys" by simp
    then show ?thesis using Cons.IH by simp
  qed
qed

lemma insertId_fresh: "x \<in> set ids \<Longrightarrow> x < insertId ids"
  using fold_max_mem [of x ids 0] by (simp add: insertId_def)

lemma insertId_not_uid: "u \<in> set (users d) \<Longrightarrow> uid u \<noteq> insertId (map uid (users d))"
  using insertId_fresh [of "uid u" "map uid (users d)"] by auto

lemma select_new_user:
  "select_users_id (snd (insert_user now e pw g n pic d)) (fst (insert_user now e pw g n pic d))
   = [\<lparr>uid = insertId (map uid (users d)), email = e, password = pw, google_id = g, uname = n,
       picture = pic, created_at = now\<rparr>]"
proof -
  have "filter (\<lambda>u. uid u = insertId (map uid (users d))) (users d) = []"
    using insertId_not_uid [of _ d] by (auto simp: filter_empty_conv)
  then show ?thesis
    by (simp add: select_users_id_def insert_user_def Let_def)
qed

lemma insert_user_users:
  "users (fst (insert_user now e pw g n pic d))
   = users d @ [\<lparr>uid = insertId (map uid (users d)), email = e, password = pw, google_id = g,
                 uname = n, picture = pic, created_at = now\<rparr>]"
  by (simp add: insert_user_def Let_def)

lemma register_ok:
  assumes "isEmail L (field em)" "6 \<le> length (field pw)"
      and "select_users_email (normalizeEmail L (field em)) d = []"
  shows "register L now salt em pw nm d =
     (Response 201
        (AuthBody ''User created successfully''
           (jwt_sign \<lparr>userId = insertId (map uid (users d)),
                      claim_email = normalizeEmail L (field em), extra = []\<rparr>
              (jwt_secret L) seven_days now)
           \<lparr>pu_id = insertId (map uid (users d)), pu_email = normalizeEmail L (field em),
            pu_name = or_null (map_option (trim L) nm), pu_picture = None\<rparr>),
      fst (insert_user now (normalizeEmail L (field em)) (Some (bcrypt_hash L (field pw) salt)) None
             (or_null (map_option (trim L) nm)) None d))"
  using assms
  by (simp add: register_def Let_def case_prod_beta select_new_user)


text \<open>
  C3, as the code has it. For an email that \<open>isEmail\<close> accepts and a password of at
  least six characters, on a store without a row whose email is the normalised form of
  that email, Register answers 201; Login with the
  same email and password on the store Register left answers 200, for the same user
  object; the \<open>userId\<close> claim of both tokens is the id of that user, an id no row had
  before and exactly the new row has now. Of bcrypt it is assumed that the hash is not
  empty and that \<open>compare\<close> accepts the password against its own hash.
\<close>

theorem register_then_login:
  assumes "isEmail L e" and "6 \<le> length p"
      and "select_users_email (normalizeEmail L e) d = []"
      and "bcrypt_hash L p salt \<noteq> []"
      and "bcrypt_compare L p (bcrypt_hash L p salt)"
  shows "\<exists>tok tok' u d' row.
      register L now salt (Some e) (Some p) nm d
        = (Response 201 (AuthBody ''User created successfully'' tok u), d')
    \<and> login L now' (Some e) (Some (JStr p)) d'
        = (Response 200 (AuthBody ''Login successful'' tok' u), d')
    \<and> userId (payload tok) = pu_id u
    \<and> userId (payload tok') = pu_id u
    \<and> select_users_id (pu_id u) d = []
    \<and> select_users_id (pu_id u) d' = [row]
    \<and> email row = normalizeEmail L e"
proof -
  let ?e = "normalizeEmail L e"
  let ?h = "bcrypt_hash L p salt"
  let ?n = "or_null (map_option (trim L) nm)"
  let ?i = "insertId (map uid (users d))"
  let ?row = "\<lparr>uid = ?i, email = ?e, password = Some ?h, google_id = None, uname = ?n,
               picture = None, created_at = now\<rparr>"
  let ?d' = "fst (insert_user now ?e (Some ?h) None ?n None d)"
  let ?u = "\<lparr>pu_id = ?i, pu_email = ?e, pu_name = ?n, pu_picture = None\<rparr>"
  have reg: "register L now salt (Some e) (Some p) nm d
        = (Response 201 (AuthBody ''User created successfully''
             (jwt_sign \<lparr>userId = ?i, claim_email = ?e, extra = []\<rparr> (jwt_secret L) seven_days now) ?u),
           ?d')"
    using assms(1-3) register_ok [of L "Some e" "Some p" d now salt nm]
    by (simp add: field_def)
  have sel: "select_users_email ?e ?d' = [?row]"
    using assms(3) by (simp add: select_users_email_def insert_user_users)
  have log: "login L now' (Some e) (Some (JStr p)) ?d'
        = (Response 200 (AuthBody ''Login successful''
             (jwt_sign \<lparr>userId = ?i, claim_email = ?e, extra = []\<rparr> (jwt_secret L) seven_days now') ?u),
           ?d')"
    using assms(1,4,5) by (simp add: login_def compare_def Let_def field_def sel)
  have old: "select_users_id ?i d = []"
    using insertId_not_uid [of _ d] by (auto simp: select_users_id_def filter_empty_conv)
  have new: "select_users_id ?i ?d' = [?row]"
    using select_new_user [of now ?e "Some ?h" None ?n None d]
    by (simp add: insert_user_def Let_def)
  show ?thesis
    using reg log old new
    by (intro exI [of _ "jwt_sign \<lparr>userId = ?i, claim_email = ?e, extra = []\<rparr> (jwt_secret L) seven_days now"]
              exI [of _ "jwt_sign \<lparr>userId = ?i, claim_email = ?e, extra = []\<rparr> (jwt_secret L) seven_days now'"]
              exI [of _ ?u] exI [of _ ?d'] exI [of _ ?row])
       (simp add: jwt_sign_def)
qed

text \<open>A store that does not hold the address, but its normalised form: Register answers
  400.\<close>

theorem register_then_login_counterexample:
  "isEmail gmail_lib ''Cy.Doe@GMAIL.com'' \<and> 6 \<le> length ''secret1''
   \<and> select_users_email ''Cy.Doe@GMAIL.com'' gmail_db = []
   \<and> register gmail_lib 1000 ''salt'' (Some ''Cy.Doe@GMAIL.com'') (Some ''secret1'') None gmail_db
       = (Response 400 (Message ''User already exists with this email''), gmail_db)"
  by (simp add: register_def Let_def field_def select_users_email_def gmail_lib_def demo_lib_def
      gmail_db_def cy_def)

theorem register_then_login_witness:
  "isEmail demo_lib ''ann@example.com'' \<and> 6 \<le> length ''secret1''
   \<and> select_users_email (normalizeEmail demo_lib ''ann@example.com'') demo_db = []
   \<and> bcrypt_hash demo_lib ''secret1'' ''salt'' \<noteq> []
   \<and> bcrypt_compare demo_lib ''secret1'' (bcrypt_hash demo_lib ''secret1'' ''salt'')
   \<and> fst (register demo_lib 1000 ''salt'' (Some ''ann@example.com'') (Some ''secret1'') None demo_db)
       = Response 201 (AuthBody ''User created successfully'' demo_token
           \<lparr>pu_id = 1, pu_email = ''ann@example.com'', pu_name = None, pu_picture = None\<rparr>)
   \<and> fst (login demo_lib 2000 (Some ''ann@example.com'') (Some (JStr ''secret1''))
            (snd (register demo_lib 1000 ''salt'' (Some ''ann@example.com'') (Some ''secret1'') None
                    demo_db)))
       = Response 200 (AuthBody ''Login successful'' (demo_token\<lparr>iat := 2000, exp := 606800\<rparr>)
           \<lparr>pu_id = 1, pu_email = ''ann@example.com'', pu_name = None, pu_picture = None\<rparr>)"
proof -
  have h: "isEmail demo_lib ''ann@example.com''" "6 \<le> length ''secret1''"
          "select_users_email (normalizeEmail demo_lib ''ann@example.com'') demo_db = []"
          "bcrypt_hash demo_lib ''secret1'' ''salt'' \<noteq> []"
          "bcrypt_compare demo_lib ''secret1'' (bcrypt_hash demo_lib ''secret1'' ''salt'')"
    by (simp_all add: demo_lib_def select_users_email_def demo_db_def)
  have i: "insertId (map uid (users demo_db)) = 1"
    by (simp add: insertId_def demo_db_def)
  from register_then_login [OF h, of 1000 None 2000]
  obtain tok tok' u d' where
    r: "register demo_lib 1000 ''salt'' (Some ''ann@example.com'') (Some ''secret1'') None demo_db
        = (Response 201 (AuthBody ''User created successfully'' tok u), d')" and
    l: "login demo_lib 2000 (Some ''ann@example.com'') (Some (JStr ''secret1'')) d'
        = (Response 200 (AuthBody ''Login successful'' tok' u), d')"
    by blast
  have r': "register demo_lib 1000 ''salt'' (Some ''ann@example.com'') (Some ''secret1'') None demo_db
        = (Response 201 (AuthBody ''User created successfully'' demo_token
             \<lparr>pu_id = 1, pu_email = ''ann@example.com'', pu_name = None, pu_picture = None\<rparr>),
           fst (insert_user 1000 ''ann@example.com'' (Some ''saltsecret1'') None None None demo_db))"
    using register_ok [of demo_lib "Some ''ann@example.com''" "Some ''secret1''" demo_db 1000 "''salt''" None] h
    by (simp add: field_def i demo_token_def demo_claims_def or_null_def)
       (simp add: demo_lib_def jwt_secret_def)
  have l': "fst (login demo_lib 2000 (Some ''ann@example.com'') (Some (JStr ''secret1''))
                  (fst (insert_user 1000 ''ann@example.com'' (Some ''saltsecret1'') None None None demo_db)))
        = Response 200 (AuthBody ''Login successful'' (demo_token\<lparr>iat := 2000, exp := 606800\<rparr>)
           \<lparr>pu_id = 1, pu_email = ''ann@example.com'', pu_name = None, pu_picture = None\<rparr>)"
    by (simp add: login_def compare_def Let_def field_def select_users_email_def insert_user_users i
          demo_token_def demo_claims_def jwt_sign_def seven_days_def
          demo_lib_def jwt_secret_def demo_db_def insertId_def)
  from h r l r' l' show ?thesis by simp
qed

section \<open>What the auth routes sign\<close>

lemma register_token:
  assumes "register L now salt em pw nm d = (Response st (AuthBody msg tok u), d')"
  shows "tok = jwt_sign \<lparr>userId = pu_id u, claim_email = pu_email u, extra = []\<rparr>
                 (jwt_secret L) seven_days now"
  using assms
  by (auto simp: register_def Let_def case_prod_beta split: if_splits list.splits)

lemma login_token:
  assumes "login L now em pw d = (Response st (AuthBody msg tok u), d')"
  shows "tok = jwt_sign \<lparr>userId = pu_id u, claim_email = pu_email u, extra = []\<rparr>
                 (jwt_secret L) seven_days now"
  using assms
  by (auto simp: login_def Let_def split: if_splits list.splits option.splits)

lemma google_token:
  assumes "google L now credential d = (Response st (AuthBody msg tok u), d')"
  shows "\<exists>g. tok = jwt_sign \<lparr>userId = pu_id u, claim_email = pu_email u, extra = [(''googleId'', g)]\<rparr>
                 (jwt_secret L) seven_days now"
  using assms
  by (auto simp: google_def google_reply_def Let_def case_prod_beta
           split: if_splits list.splits option.splits)

section \<open>Account linking\<close>

lemma uid_unique:
  assumes "distinct (map uid xs)" "a \<in> set xs" "b \<in> set xs" "uid a = uid b"
  shows "a = b"
  using assms by (auto simp: distinct_map inj_on_def)

lemma update_user_google_nth:
  "i < length (users d) \<Longrightarrow>
   users (update_user_google g n pic k d) ! i
     = (if uid (users d ! i) = k
        then (users d ! i)\<lparr>google_id := Some g, uname := n, picture := pic\<rparr>
        else users d ! i)"
  by (simp add: update_user_google_def)

lemma update_user_google_length:
  "length (users (update_user_google g n pic k d)) = length (users d)"
  by (simp add: update_user_google_def)

lemma update_user_google_watchlist:
  "watchlist (update_user_google g n pic k d) = watchlist d"
  by (simp add: update_user_google_def)

lemma select_users_google_hd:
  assumes "select_users_google g e d = user # rest"
  shows "user \<in> set (users d)"
proof -
  have "user \<in> set (select_users_google g e d)" using assms by simp
  then show ?thesis by (simp add: select_users_google_def)
qed

lemma google_link:
  assumes "truthy credential" "verifyIdToken L (the credential) = Some (Some p)"
      and "truthy (g_email p)"
      and "select_users_google (sub p) (the (g_email p)) d = user # rest"
      and "\<not> truthy (google_id user)"
  shows "google L now credential d
         = (google_reply L now (user\<lparr>google_id := Some (sub p), uname := or_null (g_name p),
                                     picture := or_null (g_picture p)\<rparr>),
            update_user_google (sub p) (g_name p) (g_picture p) (uid user) d)"
  using assms by (simp add: google_def Let_def)

lemma keeps_refl: "keeps xs xs"
  by (simp add: keeps_def)

lemma keeps_append: "keeps xs (xs @ ys)"
  by (simp add: keeps_def nth_append)

lemma keeps_insert_user: "keeps (users d) (users (fst (insert_user now e pw g n pic d)))"
  by (simp add: insert_user_users keeps_append)

lemma keeps_update_user_google:
  assumes "distinct (map uid (users d))" "user \<in> set (users d)" "\<not> truthy (google_id user)"
  shows "keeps (users d) (users (update_user_google g n pic (uid user) d))"
proof -
  have "password (users (update_user_google g n pic (uid user) d) ! i) = password (users d ! i)
        \<and> (truthy (google_id (users d ! i)) \<longrightarrow>
             google_id (users (update_user_google g n pic (uid user) d) ! i) = google_id (users d ! i))"
    if i: "i < length (users d)" for i
  proof (cases "uid (users d ! i) = uid user")
    case True
    then have "users d ! i = user"
      using uid_unique [OF assms(1) _ assms(2)] i by simp
    with assms(3) i show ?thesis by (simp add: update_user_google_nth)
  next
    case False
    with i show ?thesis by (simp add: update_user_google_nth)
  qed
  then show ?thesis by (simp add: keeps_def update_user_google_length)
qed

lemma register_keeps:
  "register L now salt em pw nm d = (res, d') \<Longrightarrow> keeps (users d) (users d')"
  by (auto simp: register_def Let_def case_prod_beta keeps_refl keeps_insert_user
           split: if_splits list.splits)

lemma login_keeps: "login L now em pw d = (res, d') \<Longrightarrow> keeps (users d) (users d')"
  by (auto simp: login_def Let_def keeps_refl split: if_splits list.splits option.splits)

lemma google_keeps:
  assumes "distinct (map uid (users d))" "google L now credential d = (res, d')"
  shows "keeps (users d) (users d')"
proof (cases "truthy credential \<and> (\<exists>p. verifyIdToken L (the credential) = Some (Some p) \<and> truthy (g_email p))")
  case False
  with assms(2) have "d' = d"
    by (auto simp: google_def Let_def split: if_splits option.splits)
  then show ?thesis by (simp add: keeps_refl)
next
  case True
  then obtain p where p: "truthy credential" "verifyIdToken L (the credential) = Some (Some p)"
      "truthy (g_email p)" by blast
  show ?thesis
  proof (cases "select_users_google (sub p) (the (g_email p)) d")
    case Nil
    with p assms(2) show ?thesis
      by (auto simp: google_def Let_def case_prod_beta keeps_insert_user split: list.splits)
  next
    case (Cons user rest)
    show ?thesis
    proof (cases "truthy (google_id user)")
      case True
      with p Cons assms(2) have "d' = d" by (simp add: google_def Let_def)
      then show ?thesis by (simp add: keeps_refl)
    next
      case False
      with p Cons assms(2) have "d' = update_user_google (sub p) (g_name p) (g_picture p) (uid user) d"
        by (simp add: google_link)
      with keeps_update_user_google [OF assms(1) select_users_google_hd [OF Cons] False]
      show ?thesis by simp
    qed
  qed
qed


lemma auth_router_keeps:
  assumes "distinct (map uid (users d))" "auth_router L now salt req d = (res, d')"
  shows "keeps (users d) (users d')"
proof (cases req)
  case (Register em pw nm)
  with assms(2) show ?thesis by (simp add: register_keeps)
next
  case (Login em pw)
  with assms(2) show ?thesis by (simp add: login_keeps)
next
  case (Google credential)
  with assms show ?thesis by (simp add: google_keeps)
qed

text \<open>
  C7. On a user table whose ids are distinct: when the Google login finds a row, by
  external id or email, whose \<open>google_id\<close> is not set, it answers 200 and the store
  differs in that row only, and there only in \<open>google_id\<close>, \<open>name\<close> and \<open>picture\<close>,
  which are those of the verified payload; id, email, password hash and creation time
  are as before. After any request to the auth routes every row is still there with the
  password hash it had, and with the external id it had if it had one.
\<close>

theorem google_linking:
  assumes "distinct (map uid (users d))"
  shows "(truthy credential \<and> verifyIdToken L (the credential) = Some (Some p) \<and> truthy (g_email p)
          \<and> select_users_google (sub p) (the (g_email p)) d = user # rest
          \<and> \<not> truthy (google_id user) \<longrightarrow>
          (\<exists>res d'. google L now credential d = (res, d') \<and> status res = 200
             \<and> length (users d') = length (users d) \<and> watchlist d' = watchlist d
             \<and> (\<forall>i < length (users d).
                  (users d ! i = user \<longrightarrow>
                     uid (users d' ! i) = uid user \<and> email (users d' ! i) = email user
                   \<and> password (users d' ! i) = password user
                   \<and> created_at (users d' ! i) = created_at user
                   \<and> google_id (users d' ! i) = Some (sub p)
                   \<and> uname (users d' ! i) = g_name p \<and> picture (users d' ! i) = g_picture p)
                \<and> (users d ! i \<noteq> user \<longrightarrow> users d' ! i = users d ! i))))
       \<and> (\<forall>req salt res d'. auth_router L now salt req d = (res, d') \<longrightarrow>
            length (users d) \<le> length (users d')
            \<and> (\<forall>i < length (users d).
                  password (users d' ! i) = password (users d ! i)
                \<and> (truthy (google_id (users d ! i)) \<longrightarrow>
                      google_id (users d' ! i) = google_id (users d ! i))))"
proof (intro conjI impI allI)
  assume h: "truthy credential \<and> verifyIdToken L (the credential) = Some (Some p) \<and> truthy (g_email p)
          \<and> select_users_google (sub p) (the (g_email p)) d = user # rest
          \<and> \<not> truthy (google_id user)"
  let ?d' = "update_user_google (sub p) (g_name p) (g_picture p) (uid user) d"
  let ?res = "google_reply L now (user\<lparr>google_id := Some (sub p), uname := or_null (g_name p),
                                     picture := or_null (g_picture p)\<rparr>)"
  have mem: "user \<in> set (users d)"
    using h select_users_google_hd by blast
  have g: "google L now credential d = (?res, ?d')"
    using h by (simp add: google_link)
  have rows: "(users d ! i = user \<longrightarrow>
                     uid (users ?d' ! i) = uid user \<and> email (users ?d' ! i) = email user
                   \<and> password (users ?d' ! i) = password user
                   \<and> created_at (users ?d' ! i) = created_at user
                   \<and> google_id (users ?d' ! i) = Some (sub p)
                   \<and> uname (users ?d' ! i) = g_name p \<and> picture (users ?d' ! i) = g_picture p)
                \<and> (users d ! i \<noteq> user \<longrightarrow> users ?d' ! i = users d ! i)"
    if i: "i < length (users d)" for i
  proof (cases "users d ! i = user")
    case True
    with i show ?thesis by (simp add: update_user_google_nth)
  next
    case False
    then have "uid (users d ! i) \<noteq> uid user"
      using uid_unique [OF assms _ mem] i by auto
    with False i show ?thesis by (simp add: update_user_google_nth)
  qed
  show "\<exists>res d'. google L now credential d = (res, d') \<and> status res = 200
             \<and> length (users d') = length (users d) \<and> watchlist d' = watchlist d
             \<and> (\<forall>i < length (users d).
                  (users d ! i = user \<longrightarrow>
                     uid (users d' ! i) = uid user \<and> email (users d' ! i) = email user
                   \<and> password (users d' ! i) = password user
                   \<and> created_at (users d' ! i) = created_at user
                   \<and> google_id (users d' ! i) = Some (sub p)
                   \<and> uname (users d' ! i) = g_name p \<and> picture (users d' ! i) = g_picture p)
                \<and> (users d ! i \<noteq> user \<longrightarrow> users d' ! i = users d ! i))"
    using g rows
    by (intro exI [of _ ?res] exI [of _ ?d'])
       (simp add: google_reply_def update_user_google_length update_user_google_watchlist)
next
  fix req salt res d'
  assume "auth_router L now salt req d = (res, d')"
  then have k: "keeps (users d) (users d')"
    using auth_router_keeps [OF assms] by blast
  from k show "length (users d) \<le> length (users d')"
    by (simp add: keeps_def)
  fix i assume "i < length (users d)"
  with k show "password (users d' ! i) = password (users d ! i)"
    by (simp add: keeps_def)
  assume "i < length (users d)" "truthy (google_id (users d ! i))"
  with k show "google_id (users d' ! i) = google_id (users d ! i)"
    by (simp add: keeps_def)
qed

theorem google_linking_witness:
  "distinct (map uid (users users_db))
   \<and> truthy (Some ''google-id-token'')
   \<and> verifyIdToken demo_lib (the (Some ''google-id-token'')) = Some (Some demo_payload)
   \<and> truthy (g_email demo_payload)
   \<and> select_users_google (sub demo_payload) (the (g_email demo_payload)) users_db = ann # []
   \<and> \<not> truthy (google_id ann)
   \<and> snd (auth_router demo_lib 1000 ''salt'' (Google (Some ''google-id-token'')) users_db)
       = users_db\<lparr>users := [ann\<lparr>google_id := Some ''g-1''\<rparr>, bob]\<rparr>
   \<and> password (ann\<lparr>google_id := Some ''g-1''\<rparr>) = Some ''saltsecret1''"
  using google_linking [of users_db "Some ''google-id-token''" demo_lib demo_payload ann "[]" 1000]
  by (simp add: google_def Let_def update_user_google_def select_users_google_def demo_lib_def
      demo_payload_def users_db_def ann_def bob_def)

section \<open>From issue to verification\<close>

lemma register_user_row:
  assumes "register L now salt em pw nm d = (Response st (AuthBody msg tok u), d')"
  shows "\<exists>row \<in> set (users d'). uid row = pu_id u \<and> email row = pu_email u"
  using assms
  by (auto simp: register_def Let_def case_prod_beta select_new_user insert_user_users
           split: if_splits list.splits)

lemma select_users_email_hd:
  assumes "select_users_email e d = user # rest"
  shows "user \<in> set (users d)"
proof -
  have "user \<in> set (select_users_email e d)" using assms by simp
  then show ?thesis by (simp add: select_users_email_def)
qed

lemma login_user_row:
  assumes "login L now em pw d = (Response st (AuthBody msg tok u), d')"
  shows "\<exists>row \<in> set (users d'). uid row = pu_id u \<and> email row = pu_email u"
  using assms
  by (auto simp: login_def Let_def split: if_splits list.splits option.splits
           dest: select_users_email_hd)

lemma update_user_google_row:
  assumes "user \<in> set (users d)"
  shows "\<exists>row \<in> set (users (update_user_google g n pic (uid user) d)).
           uid row = uid user \<and> email row = email user"
  using assms
  by (auto simp: update_user_google_def intro!: bexI [of _ "user\<lparr>google_id := Some g, uname := n, picture := pic\<rparr>"])

lemma google_user_row:
  assumes "google L now credential d = (Response st (AuthBody msg tok u), d')"
  shows "\<exists>row \<in> set (users d'). uid row = pu_id u \<and> email row = pu_email u"
proof (cases "truthy credential \<and> (\<exists>p. verifyIdToken L (the credential) = Some (Some p) \<and> truthy (g_email p))")
  case False
  with assms show ?thesis
    by (auto simp: google_def Let_def split: if_splits option.splits)
next
  case True
  then obtain p where p: "truthy credential" "verifyIdToken L (the credential) = Some (Some p)"
      "truthy (g_email p)" by blast
  show ?thesis
  proof (cases "select_users_google (sub p) (the (g_email p)) d")
    case Nil
    with p assms show ?thesis
      by (auto simp: google_def google_reply_def Let_def case_prod_beta select_new_user
            insert_user_users split: list.splits)
  next
    case (Cons user rest)
    then have mem: "user \<in> set (users d)" by (rule select_users_google_hd)
    show ?thesis
    proof (cases "truthy (google_id user)")
      case True
      with p Cons assms mem show ?thesis
        by (auto simp: google_def google_reply_def Let_def)
    next
      case False
      with p Cons assms update_user_google_row [OF mem] show ?thesis
        by (auto simp: google_link google_reply_def)
    qed
  qed
qed

lemma auth_router_user_row:
  assumes "auth_router L now salt req d = (Response st (AuthBody msg tok u), d')"
  shows "\<exists>row \<in> set (users d'). uid row = pu_id u \<and> email row = pu_email u"
  using assms
  by (cases req) (auto dest: register_user_row login_user_row google_user_row)

lemma auth_router_token:
  assumes "auth_router L now salt req d = (Response st (AuthBody msg tok u), d')"
  shows "key tok = jwt_secret L \<and> exp tok = now + seven_days \<and> userId (payload tok) = pu_id u"
  using assms
  by (cases req)
     (auto simp: jwt_sign_def dest!: register_token login_token google_token)

lemma bearer_token:
  assumes "s \<noteq> []" "CHR '' '' \<notin> set s"
  shows "header_token (Some (''Bearer '' @ s)) = Some s"
  using header_token_second(1) [of "''Bearer''" s] assms by simp

text \<open>
  C9. The token of a successful Register, Login or Google login is signed with the secret
  the middleware verifies against, and its \<open>userId\<close> claim is the id of the user in the
  response, a row of the user table. Sent back as "Bearer token" before it expires, it is
  accepted, \<open>req.user\<close> is its payload, and every statement of the watchlist handler
  that follows carries that user id. Of the serialisation it is assumed that the token
  decodes to itself and that its text is not empty and has no space.
\<close>

theorem issued_token_accepted:
  assumes "auth_router L now salt req d = (Response st (AuthBody msg tok u), d')"
      and "jwt_decode L (jwt_encode L tok) = Some tok"
      and "jwt_encode L tok \<noteq> []" and "CHR '' '' \<notin> set (jwt_encode L tok)"
      and "now' < now + seven_days"
  shows "key tok = jwt_secret L \<and> userId (payload tok) = pu_id u
       \<and> (\<exists>row \<in> set (users d'). uid row = pu_id u \<and> email row = pu_email u)
       \<and> authenticateToken L now' (Some (''Bearer '' @ jwt_encode L tok)) = Inr (payload tok)
       \<and> (\<forall>wreq d2. \<forall>q \<in> set (snd (snd (watchlist_router L now'
                                   (Some (''Bearer '' @ jwt_encode L tok)) wreq d2))).
             sql_user q = pu_id u)"
proof -
  note t = auth_router_token [OF assms(1)]
  have ver: "jwt_verify L (jwt_encode L tok) (jwt_secret L) now' = Some (payload tok)"
    using t assms(2,5) by (simp add: jwt_verify_def)
  have acc: "authenticateToken L now' (Some (''Bearer '' @ jwt_encode L tok)) = Inr (payload tok)"
    using bearer_token [OF assms(3,4)] assms(3) ver
    by (simp add: authenticateToken_def Let_def)
  have scoped: "\<forall>q \<in> set (snd (snd (watchlist_router L now'
                   (Some (''Bearer '' @ jwt_encode L tok)) wreq d2))). sql_user q = pu_id u"
    for wreq d2
  proof -
    obtain res d3 qs where h: "wl_handler now' (payload tok) wreq d2 = (res, d3, qs)"
      by (cases "wl_handler now' (payload tok) wreq d2") auto
    from wl_handler_scoped [OF h] have "\<forall>q \<in> set qs. sql_user q = userId (payload tok)"
      by blast
    with h acc t show ?thesis
      by (simp add: watchlist_router_def)
  qed
  from t auth_router_user_row [OF assms(1)] acc scoped show ?thesis by blast
qed


theorem issued_token_accepted_witness:
  "auth_router demo_lib 1000 ''salt'' (Register (Some ''ann@example.com'') (Some ''secret1'') None)
       demo_db
     = (Response 201 (AuthBody ''User created successfully'' demo_token
          \<lparr>pu_id = 1, pu_email = ''ann@example.com'', pu_name = None, pu_picture = None\<rparr>),
        demo_db\<lparr>users := [\<lparr>uid = 1, email = ''ann@example.com'', password = Some ''saltsecret1'',
                             google_id = None, uname = None, picture = None, created_at = 1000\<rparr>]\<rparr>)
   \<and> jwt_decode demo_lib (jwt_encode demo_lib demo_token) = Some demo_token
   \<and> jwt_encode demo_lib demo_token \<noteq> []
   \<and> CHR '' '' \<notin> set (jwt_encode demo_lib demo_token)
   \<and> (2000::nat) < 1000 + seven_days
   \<and> authenticateToken demo_lib 2000 (Some (''Bearer '' @ jwt_encode demo_lib demo_token))
       = Inr demo_claims
   \<and> snd (snd (watchlist_router demo_lib 2000 (Some (''Bearer '' @ jwt_encode demo_lib demo_token))
                  (DeleteRemove ''AAPL'') demo_db))
       = [DeleteWatchlist 1 ''AAPL'']"
proof -
  have a: "auth_router demo_lib 1000 ''salt'' (Register (Some ''ann@example.com'') (Some ''secret1'') None)
       demo_db
     = (Response 201 (AuthBody ''User created successfully'' demo_token
          \<lparr>pu_id = 1, pu_email = ''ann@example.com'', pu_name = None, pu_picture = None\<rparr>),
        demo_db\<lparr>users := [\<lparr>uid = 1, email = ''ann@example.com'', password = Some ''saltsecret1'',
                             google_id = None, uname = None, picture = None, created_at = 1000\<rparr>]\<rparr>)"
    by (simp add: register_def Let_def field_def select_users_email_def select_users_id_def
        insert_user_def insertId_def or_null_def demo_lib_def demo_db_def demo_token_def
        demo_claims_def jwt_secret_def)
  have c: "jwt_decode demo_lib (jwt_encode demo_lib demo_token) = Some demo_token"
          "jwt_encode demo_lib demo_token \<noteq> []"
          "CHR '' '' \<notin> set (jwt_encode demo_lib demo_token)"
    by (simp_all add: demo_lib_def)
  have n: "(2000::nat) < 1000 + seven_days" by (simp add: seven_days_def)
  have p: "payload demo_token = demo_claims" by (simp add: demo_token_def jwt_sign_def)
  note r = issued_token_accepted [OF a c n]
  have acc: "authenticateToken demo_lib 2000 (Some (''Bearer '' @ jwt_encode demo_lib demo_token))
       = Inr demo_claims"
    using r p by simp
  have q: "snd (snd (watchlist_router demo_lib 2000 (Some (''Bearer '' @ jwt_encode demo_lib demo_token))
                  (DeleteRemove ''AAPL'') demo_db))
       = [DeleteWatchlist 1 ''AAPL'']"
    using acc by (simp add: watchlist_router_def delete_remove_def demo_claims_def)
  from a c n acc q show ?thesis by simp
qed

section \<open>Issued tokens\<close>

lemma update_user_google_mem:
  assumes "user \<in> set (users d)"
  shows "user\<lparr>google_id := Some g, uname := n, picture := pic\<rparr>
           \<in> set (users (update_user_google g n pic (uid user) d))"
proof -
  have "(\<lambda>u. if uid u = uid user then u\<lparr>google_id := Some g, uname := n, picture := pic\<rparr> else u) user
          \<in> (\<lambda>u. if uid u = uid user then u\<lparr>google_id := Some g, uname := n, picture := pic\<rparr> else u)
               ` set (users d)"
    using assms by (rule imageI)
  then show ?thesis by (simp add: update_user_google_def)
qed

lemma google_token_row:
  assumes "google L now credential d = (Response st (AuthBody msg tok u), d')"
  shows "\<exists>row g. row \<in> set (users d') \<and> uid row = pu_id u \<and> email row = pu_email u
           \<and> google_id row = Some g \<and> extra (payload tok) = [(''googleId'', JStr g)]"
proof (cases "truthy credential \<and> (\<exists>p. verifyIdToken L (the credential) = Some (Some p) \<and> truthy (g_email p))")
  case False
  with assms show ?thesis
    by (auto simp: google_def Let_def split: if_splits option.splits)
next
  case True
  then obtain p where p: "truthy credential" "verifyIdToken L (the credential) = Some (Some p)"
      "truthy (g_email p)" by blast
  show ?thesis
  proof (cases "select_users_google (sub p) (the (g_email p)) d")
    case Nil
    let ?row = "\<lparr>uid = insertId (map uid (users d)), email = the (g_email p), password = None,
                 google_id = Some (sub p), uname = g_name p, picture = g_picture p,
                 created_at = now\<rparr>"
    from p Nil assms
    have "d' = fst (insert_user now (the (g_email p)) None (Some (sub p)) (g_name p) (g_picture p) d)"
      and "Response st (AuthBody msg tok u) = google_reply L now ?row"
      by (auto simp: google_def Let_def case_prod_beta select_new_user)
    then show ?thesis
      by (intro exI [of _ ?row] exI [of _ "sub p"])
         (auto simp: google_reply_def jwt_sign_def json_of_def insert_user_users)
  next
    case (Cons user rest)
    then have mem: "user \<in> set (users d)" by (rule select_users_google_hd)
    show ?thesis
    proof (cases "truthy (google_id user)")
      case True
      then obtain g where g: "google_id user = Some g" by (cases "google_id user") auto
      from p Cons True assms have "d' = d" and "Response st (AuthBody msg tok u) = google_reply L now user"
        by (auto simp: google_def Let_def)
      with mem g show ?thesis
        by (intro exI [of _ user] exI [of _ g])
           (auto simp: google_reply_def jwt_sign_def json_of_def)
    next
      case False
      let ?row = "user\<lparr>google_id := Some (sub p), uname := g_name p, picture := g_picture p\<rparr>"
      from p Cons False assms
      have "d' = update_user_google (sub p) (g_name p) (g_picture p) (uid user) d"
        and "Response st (AuthBody msg tok u)
             = google_reply L now (user\<lparr>google_id := Some (sub p), uname := or_null (g_name p),
                                         picture := or_null (g_picture p)\<rparr>)"
        by (auto simp: google_link)
      with update_user_google_mem [OF mem, where g = "sub p" and n = "g_name p" and pic = "g_picture p"] show ?thesis
        by (intro exI [of _ ?row] exI [of _ "sub p"])
           (auto simp: google_reply_def jwt_sign_def json_of_def)
    qed
  qed
qed

text \<open>
  C6, as the code has it. The token of every successful Register, Login or Google login
  is signed with the server's secret and expires seven days after the time of issue; its
  \<open>userId\<close> and \<open>email\<close> are those of the user in the response, who is a row of the user
  table. For Register and Login these are all its claims; the token of a Google login has
  one more claim, \<open>googleId\<close>, whose value is the \<open>google_id\<close> that row now has.
\<close>

theorem token_claims:
  assumes "auth_router L now salt req d = (Response st (AuthBody msg tok u), d')"
  shows "key tok = jwt_secret L \<and> iat tok = now \<and> exp tok = now + 7 * 24 * 60 * 60
       \<and> userId (payload tok) = pu_id u \<and> claim_email (payload tok) = pu_email u
       \<and> (\<exists>row. row \<in> set (users d') \<and> uid row = pu_id u \<and> email row = pu_email u)
       \<and> (case req of
             Google credential \<Rightarrow>
               (\<exists>row g. row \<in> set (users d') \<and> uid row = pu_id u \<and> email row = pu_email u
                  \<and> google_id row = Some g \<and> extra (payload tok) = [(''googleId'', JStr g)])
           | _ \<Rightarrow> extra (payload tok) = [])"
proof -
  have row: "\<exists>row. row \<in> set (users d') \<and> uid row = pu_id u \<and> email row = pu_email u"
    using auth_router_user_row [OF assms] by blast
  show ?thesis
  proof (cases req)
    case (Register em pw nm)
    with assms row register_token [of L now salt em pw nm d st msg tok u d'] show ?thesis
      by (simp add: jwt_sign_def seven_days_def)
  next
    case (Login em pw)
    with assms row login_token [of L now em pw d st msg tok u d'] show ?thesis
      by (simp add: jwt_sign_def seven_days_def)
  next
    case (Google credential)
    with assms have g: "google L now credential d = (Response st (AuthBody msg tok u), d')"
      by simp
    from google_token [OF g] have "key tok = jwt_secret L \<and> iat tok = now
        \<and> exp tok = now + 7 * 24 * 60 * 60
        \<and> userId (payload tok) = pu_id u \<and> claim_email (payload tok) = pu_email u"
      by (auto simp: jwt_sign_def seven_days_def)
    with row google_token_row [OF g] Google show ?thesis by simp
  qed
qed

text \<open>A Google login of a user who registered with a password: the payload has three
  claims.\<close>

theorem token_claims_counterexample:
  "fst (auth_router demo_lib 1000 ''salt'' (Google (Some ''google-id-token'')) users_db)
     = Response 200
         (AuthBody ''Google login successful''
            \<lparr>payload = \<lparr>userId = 1, claim_email = ''ann@example.com'',
                         extra = [(''googleId'', JStr ''g-1'')]\<rparr>,
             iat = 1000, exp = 605800, key = ''your-secret-key''\<rparr>
            \<lparr>pu_id = 1, pu_email = ''ann@example.com'', pu_name = Some ''Ann'',
             pu_picture = Some None\<rparr>)
   \<and> extra \<lparr>userId = 1, claim_email = ''ann@example.com'',
             extra = [(''googleId'', JStr ''g-1'')]\<rparr> \<noteq> []"
  by (simp add: google_def google_reply_def select_users_google_def Let_def demo_lib_def
      demo_payload_def users_db_def ann_def bob_def jwt_sign_def jwt_secret_def seven_days_def
      or_null_def json_of_def)

theorem token_claims_witness:
  "auth_router demo_lib 1000 ''salt'' (Login (Some ''ann@example.com'') (Some (JStr ''secret1''))) users_db
     = (Response 200 (AuthBody ''Login successful'' demo_token
          \<lparr>pu_id = 1, pu_email = ''ann@example.com'', pu_name = Some ''Ann'', pu_picture = None\<rparr>),
        users_db)
   \<and> key demo_token = jwt_secret demo_lib \<and> exp demo_token = 1000 + 7 * 24 * 60 * 60
   \<and> extra (payload demo_token) = []
   \<and> auth_router demo_lib 1000 ''salt'' (Google (Some ''google-id-token'')) users_db
     = (Response 200
          (AuthBody ''Google login successful''
             (demo_token\<lparr>payload := demo_claims\<lparr>extra := [(''googleId'', JStr ''g-1'')]\<rparr>\<rparr>)
             \<lparr>pu_id = 1, pu_email = ''ann@example.com'', pu_name = Some ''Ann'',
              pu_picture = Some None\<rparr>),
        users_db\<lparr>users := [ann\<lparr>google_id := Some ''g-1''\<rparr>, bob]\<rparr>)
   \<and> uid (ann\<lparr>google_id := Some ''g-1''\<rparr>) = 1
   \<and> google_id (ann\<lparr>google_id := Some ''g-1''\<rparr>) = Some ''g-1''"
proof -
  have a: "auth_router demo_lib 1000 ''salt'' (Login (Some ''ann@example.com'') (Some (JStr ''secret1''))) users_db
     = (Response 200 (AuthBody ''Login successful'' demo_token
          \<lparr>pu_id = 1, pu_email = ''ann@example.com'', pu_name = Some ''Ann'', pu_picture = None\<rparr>),
        users_db)"
    by (simp add: login_def compare_def Let_def field_def select_users_email_def users_db_def
        ann_def bob_def demo_lib_def demo_token_def demo_claims_def jwt_secret_def)
  have b: "auth_router demo_lib 1000 ''salt'' (Google (Some ''google-id-token'')) users_db
     = (Response 200
          (AuthBody ''Google login successful''
             (demo_token\<lparr>payload := demo_claims\<lparr>extra := [(''googleId'', JStr ''g-1'')]\<rparr>\<rparr>)
             \<lparr>pu_id = 1, pu_email = ''ann@example.com'', pu_name = Some ''Ann'',
              pu_picture = Some None\<rparr>),
        users_db\<lparr>users := [ann\<lparr>google_id := Some ''g-1''\<rparr>, bob]\<rparr>)"
    by (simp add: google_def google_reply_def select_users_google_def update_user_google_def
        Let_def demo_lib_def demo_payload_def users_db_def ann_def bob_def demo_token_def
        demo_claims_def jwt_sign_def jwt_secret_def or_null_def json_of_def)
  from token_claims [OF a] token_claims [OF b] a b show ?thesis
    by (simp add: ann_def)
qed

end
